theory Spec2Isabelle
  imports Main
begin

section \<open>Data model of App.tsx\<close>

text \<open>
  The application is one React component, \<^verbatim>\<open>App\<close>, with eight \<^verbatim>\<open>useState\<close> variables and
  a handful of asynchronous handlers that call into the BLE client library, the permission
  API, the console and the timer queue. The embedding makes each handler a function from
  the state before it runs to the state after it has run; what the platform answers to a
  call (a promise that resolves or rejects, a permission dialog's result, what
  \<^verbatim>\<open>JSON.parse\<close> makes of a payload) is an argument of the handler.
\<close>

subsection \<open>Values the platform hands to the application\<close>

text \<open>A promise (or a call) either rejects/throws with an error, of which the source only
  reads \<^verbatim>\<open>error.message\<close>, or yields a value.\<close>

datatype 'a outcome = Throws string | Returns 'a

text \<open>The adapter states of the BLE library (\<^verbatim>\<open>State\<close>).\<close>

datatype ble_state = Unknown | Resetting | Unsupported | Unauthorized | PoweredOff | PoweredOn

text \<open>A scanned or connected \<^verbatim>\<open>Device\<close>: the source reads \<^verbatim>\<open>id\<close> and the nullable
  \<^verbatim>\<open>name\<close>.\<close>

record device =
  dev_id :: string
  dev_name :: "string option"

text \<open>A \<^verbatim>\<open>Characteristic\<close>: the source reads \<^verbatim>\<open>isNotifiable\<close> and the nullable
  \<^verbatim>\<open>value\<close> and calls \<^verbatim>\<open>monitor\<close>; \<open>monitor_result\<close> is what that call does.\<close>

record characteristic =
  ch_uuid :: string
  isNotifiable :: bool
  ch_value :: "string option"
  monitor_result :: "unit outcome"

text \<open>A \<^verbatim>\<open>Service\<close>, with what \<^verbatim>\<open>service.characteristics()\<close> resolves to.\<close>

record service =
  svc_uuid :: string
  svc_characteristics :: "characteristic list outcome"

text \<open>A JavaScript number is a double: \<open>Finite m e\<close> stands for \<open>m * 2 ^ e\<close> (so zero is a
  zero mantissa), and the four values outside the dyadic rationals are constructors.\<close>

datatype jsnum = Finite int int | NegZero | PosInfinity | NegInfinity | NaN

text \<open>What \<^verbatim>\<open>JSON.parse\<close> can return; an object is its list of own properties.\<close>

datatype json =
    JNull
  | JBool bool
  | JNum jsnum
  | JStr string
  | JArr "json list"
  | JObj "(string \<times> json) list"

text \<open>Reading the property \<^verbatim>\<open>temperature\<close> or \<^verbatim>\<open>humidity\<close> of a parsed value: \<^verbatim>\<open>null\<close>
  throws a TypeError, an object yields its own property or \<^verbatim>\<open>undefined\<close> (\<open>None\<close>), and
  every other value yields \<^verbatim>\<open>undefined\<close>, since no built-in prototype has a property of
  either name.\<close>

fun get_field :: "json \<Rightarrow> string \<Rightarrow> (json option) outcome" where
  "get_field JNull k = Throws ''TypeError''"
| "get_field (JObj kvs) k = Returns (map_of kvs k)"
| "get_field _ k = Returns None"

text \<open>JavaScript truthiness, as \<^verbatim>\<open>if (...)\<close> and \<^verbatim>\<open>||\<close> test it.\<close>

fun truthy_num :: "jsnum \<Rightarrow> bool" where
  "truthy_num (Finite m e) = (m \<noteq> 0)"
| "truthy_num NegZero = False"
| "truthy_num NaN = False"
| "truthy_num PosInfinity = True"
| "truthy_num NegInfinity = True"

fun truthy :: "json option \<Rightarrow> bool" where
  "truthy None = False"
| "truthy (Some JNull) = False"
| "truthy (Some (JBool b)) = b"
| "truthy (Some (JNum x)) = truthy_num x"
| "truthy (Some (JStr s)) = (s \<noteq> [])"
| "truthy (Some (JArr xs)) = True"
| "truthy (Some (JObj kvs)) = True"

text \<open>String conversion of a nullable name in \<^verbatim>\<open>'...' + device.name\<close>.\<close>

fun js_str :: "string option \<Rightarrow> string" where
  "js_str None = ''null''"
| "js_str (Some s) = s"

text \<open>Decimal rendering of \<^verbatim>\<open>devices.length\<close> inside a template string.\<close>

fun string_of_nat :: "nat \<Rightarrow> string" where
  "string_of_nat n =
     (if n < 10 then [char_of (48 + n)]
      else string_of_nat (n div 10) @ [char_of (48 + n mod 10)])"

subsection \<open>Permissions\<close>

text \<open>The four members of \<^verbatim>\<open>PermissionsAndroid.PERMISSIONS\<close> the source names, and the
  members of \<^verbatim>\<open>PermissionsAndroid.RESULTS\<close>.\<close>

datatype permission =
  ACCESS_FINE_LOCATION | ACCESS_COARSE_LOCATION | BLUETOOTH_SCAN | BLUETOOTH_CONNECT

datatype perm_status = GRANTED | DENIED | NEVER_ASK_AGAIN

text \<open>The strings behind the permission constants, as the alert prints them.\<close>

fun permission_string :: "permission \<Rightarrow> string" where
  "permission_string ACCESS_FINE_LOCATION = ''android.permission.ACCESS_FINE_LOCATION''"
| "permission_string ACCESS_COARSE_LOCATION = ''android.permission.ACCESS_COARSE_LOCATION''"
| "permission_string BLUETOOTH_SCAN = ''android.permission.BLUETOOTH_SCAN''"
| "permission_string BLUETOOTH_CONNECT = ''android.permission.BLUETOOTH_CONNECT''"

datatype os_kind = Android | IOS | OtherOS

record platform =
  os :: os_kind
  version :: int

subsection \<open>Calls that leave the component\<close>

datatype effect =
    Alert string string
  | ConsoleWarn string string
  | ConsoleError string string
  | ConsoleLog string string
  | PermissionCheck permission
  | RequestMultiple "permission list"
  | StartDeviceScan
  | StopDeviceScan
  | SetTimeout nat
  | DeviceConnect string
  | DiscoverAll string
  | DeviceServices string
  | ServiceCharacteristics string
  | Monitor string
  | CancelConnection string

text \<open>A pending \<^verbatim>\<open>setTimeout\<close> callback: when it is due, and the \<^verbatim>\<open>devices.length\<close> its
  closure captured.\<close>

record timer =
  due :: nat
  found :: nat

subsection \<open>State\<close>

text \<open>
  The first eight fields are the component's \<^verbatim>\<open>useState\<close> variables. The others stand for
  the world around it: \<open>effects\<close> is the sequence of calls made so far, \<open>held\<close> the
  identifiers of the devices whose \<^verbatim>\<open>connect()\<close> has resolved and whose connection nobody
  has cancelled, \<open>timers\<close> the timer queue, \<open>clock\<close> the time in milliseconds and
  \<open>scanSince\<close> the time at which the scan now running was started.
\<close>

record state =
  sensorData :: json
  connected :: bool
  statusMsg :: string
  bluetoothState :: ble_state
  scanning :: bool
  devices :: "device list"
  selectedDevice :: "device option"
  permissionsGranted :: bool
  effects :: "effect list"
  held :: "string list"
  timers :: "timer list"
  clock :: nat
  scanSince :: "nat option"

definition initial :: state where
  "initial =
     \<lparr> sensorData = JObj [], connected = False, statusMsg = ''Bluetooth not ready'',
       bluetoothState = Unknown, scanning = False, devices = [], selectedDevice = None,
       permissionsGranted = False, effects = [], held = [], timers = [], clock = 0,
       scanSince = None \<rparr>"

definition emit :: "effect list \<Rightarrow> state \<Rightarrow> state" where
  "emit es st = st\<lparr>effects := effects st @ es\<rparr>"

section \<open>The handlers\<close>

subsection \<open>Adapter state observer\<close>

definition onStateChange :: "ble_state \<Rightarrow> state \<Rightarrow> state" where
  "onStateChange s st =
     (let st1 = st\<lparr>bluetoothState := s\<rparr> in
      if s = PoweredOn then st1\<lparr>statusMsg := ''Bluetooth is ready - Scan for devices''\<rparr>
      else if s = PoweredOff then
        st1\<lparr>statusMsg := ''Bluetooth is turned off'', connected := False,
            selectedDevice := None\<rparr>
      else if s = Unauthorized then st1\<lparr>statusMsg := ''Bluetooth permission denied''\<rparr>
      else if s = Unsupported then
        st1\<lparr>statusMsg := ''Bluetooth not supported on this device''\<rparr>
      else st1)"

subsection \<open>Permission gate\<close>

text \<open>What the four \<^verbatim>\<open>PermissionsAndroid.check\<close> calls and the
  \<^verbatim>\<open>PermissionsAndroid.requestMultiple\<close> call answer. The latter resolves to an object
  from permission to result, kept as the list of its entries.\<close>

record perm_env =
  check_fine :: "bool outcome"
  check_coarse :: "bool outcome"
  check_scan :: "bool outcome"
  check_connect :: "bool outcome"
  request_result :: "(permission \<times> perm_status) list outcome"

text \<open>The \<^verbatim>\<open>try\<close> block of \<^verbatim>\<open>checkPermissions\<close>: the checks in order, left at the first
  one that throws.\<close>

definition check_body :: "platform \<Rightarrow> perm_env \<Rightarrow> state \<Rightarrow> bool outcome \<times> state" where
  "check_body pf env st =
     (let st1 = emit [PermissionCheck ACCESS_FINE_LOCATION] st in
      case check_fine env of
        Throws err \<Rightarrow> (Throws err, st1)
      | Returns fineLocation \<Rightarrow>
          (let st2 = emit [PermissionCheck ACCESS_COARSE_LOCATION] st1 in
           case check_coarse env of
             Throws err \<Rightarrow> (Throws err, st2)
           | Returns coarseLocation \<Rightarrow>
               if 31 \<le> version pf then
                 (let st3 = emit [PermissionCheck BLUETOOTH_SCAN] st2 in
                  case check_scan env of
                    Throws err \<Rightarrow> (Throws err, st3)
                  | Returns bluetoothScan \<Rightarrow>
                      (let st4 = emit [PermissionCheck BLUETOOTH_CONNECT] st3 in
                       case check_connect env of
                         Throws err \<Rightarrow> (Throws err, st4)
                       | Returns bluetoothConnect \<Rightarrow>
                           (Returns (fineLocation \<and> coarseLocation \<and> bluetoothScan
                                     \<and> bluetoothConnect), st4)))
               else (Returns (fineLocation \<and> coarseLocation \<and> True \<and> True), st2)))"

definition checkPermissions :: "platform \<Rightarrow> perm_env \<Rightarrow> state \<Rightarrow> bool \<times> state" where
  "checkPermissions pf env st =
     (if os pf = Android then
        (case check_body pf env st of
           (Throws err, st') \<Rightarrow> (False, emit [ConsoleWarn ''Permission check error:'' err] st')
         | (Returns b, st') \<Rightarrow> (b, st'))
      else (True, st))"

text \<open>The list handed to \<^verbatim>\<open>requestMultiple\<close>.\<close>

definition requested_permissions :: "platform \<Rightarrow> permission list" where
  "requested_permissions pf =
     [ACCESS_FINE_LOCATION, ACCESS_COARSE_LOCATION]
     @ (if 31 \<le> version pf then [BLUETOOTH_SCAN, BLUETOOTH_CONNECT] else [])"

fun join_lines :: "string list \<Rightarrow> string" where
  "join_lines [] = []"
| "join_lines [x] = x"
| "join_lines (x # y # ys) = x @ [CHR 0x0A] @ join_lines (y # ys)"

definition requestPermissions :: "platform \<Rightarrow> perm_env \<Rightarrow> state \<Rightarrow> bool \<times> state" where
  "requestPermissions pf env st =
     (if os pf = Android then
        (let permissions = requested_permissions pf;
             st1 = emit [RequestMultiple permissions] st in
         case request_result env of
           Throws err \<Rightarrow>
             (False, emit [ConsoleWarn ''Permission request error:'' err,
                           Alert ''Error'' ''Failed to request permissions''] st1)
         | Returns granted \<Rightarrow>
             (let allGranted = list_all (\<lambda>permission. permission = GRANTED) (map snd granted) in
              if allGranted then (True, st1)
              else
                (let deniedPermissions =
                       map fst (filter (\<lambda>(_, status). status \<noteq> GRANTED) granted) in
                 (False, emit [Alert ''Permissions Required''
                     (''The following permissions are required for Bluetooth scanning:''
                      @ [CHR 0x0A] @ join_lines (map permission_string deniedPermissions)
                      @ [CHR 0x0A, CHR 0x0A]
                      @ ''Please grant these permissions in Settings.'')] st1))))
      else (True, st))"

subsection \<open>Scanner\<close>

text \<open>The listener handed to \<^verbatim>\<open>startDeviceScan\<close>. A name is falsy when it is \<^verbatim>\<open>null\<close> or
  the empty string.\<close>

definition scan_listener :: "string option \<Rightarrow> device option \<Rightarrow> state \<Rightarrow> state" where
  "scan_listener error dev st =
     (case error of
        Some message \<Rightarrow>
          (emit [ConsoleError ''Scan error:'' message] st)
            \<lparr>statusMsg := ''Scan error: '' @ message, scanning := False\<rparr>
      | None \<Rightarrow>
          (case dev of
             None \<Rightarrow> st
           | Some d \<Rightarrow>
               if dev_name d \<noteq> None \<and> dev_name d \<noteq> Some [] then
                 (let prevDevices = devices st;
                      exists = find (\<lambda>x. dev_id x = dev_id d) prevDevices in
                  if exists = None then st\<lparr>devices := prevDevices @ [d]\<rparr>
                  else st\<lparr>devices := prevDevices\<rparr>)
               else st))"

text \<open>The callback handed to \<^verbatim>\<open>setTimeout\<close>; \<open>found tm\<close> is the \<^verbatim>\<open>devices.length\<close> of the
  render in which the scan was started.\<close>

definition timeout_callback :: "timer \<Rightarrow> state \<Rightarrow> state" where
  "timeout_callback tm st =
     (emit [StopDeviceScan] st)
       \<lparr>scanSince := None, scanning := False,
        statusMsg := ''Scan completed. Found '' @ string_of_nat (found tm) @ '' devices''\<rparr>"

text \<open>The part of \<^verbatim>\<open>startBLEScan\<close> behind the two gates. \<open>start_result\<close> is what the call
  of \<^verbatim>\<open>startDeviceScan\<close> does.\<close>

definition begin_scan :: "unit outcome \<Rightarrow> nat \<Rightarrow> state \<Rightarrow> state" where
  "begin_scan start_result captured st =
     (let st1 = st\<lparr>scanning := True, statusMsg := ''Scanning for BLE devices...'',
                   devices := []\<rparr>;
          st2 = emit [StartDeviceScan] st1 in
      case start_result of
        Throws message \<Rightarrow>
          (emit [ConsoleError ''Scan failed:'' message] st2)
            \<lparr>statusMsg := ''Scan failed: '' @ message, scanning := False\<rparr>
      | Returns _ \<Rightarrow>
          (emit [SetTimeout 10000] st2)
            \<lparr>scanSince := Some (clock st2),
             timers := timers st2 @ [\<lparr>due = clock st2 + 10000, found = captured\<rparr>]\<rparr>)"

definition startBLEScan :: "platform \<Rightarrow> perm_env \<Rightarrow> unit outcome \<Rightarrow> state \<Rightarrow> state" where
  "startBLEScan pf env start_result st =
     (if bluetoothState st \<noteq> PoweredOn then
        emit [Alert ''Bluetooth Error'' ''Please turn on Bluetooth''] st
      else
        (case checkPermissions pf env st of
           (hasPermissions, st1) \<Rightarrow>
             if \<not> hasPermissions then
               (case requestPermissions pf env st1 of
                  (granted, st2) \<Rightarrow>
                    if \<not> granted then st2\<lparr>statusMsg := ''Bluetooth permissions required''\<rparr>
                    else begin_scan start_result (length (devices st)) st2)
             else begin_scan start_result (length (devices st)) st1))"

subsection \<open>Payload decoder\<close>

text \<open>The \<^verbatim>\<open>try\<close> block of the listener handed to \<^verbatim>\<open>characteristic.monitor\<close>: \<open>parsed\<close> is
  what \<^verbatim>\<open>JSON.parse(characteristic.value)\<close> does. The result is \<open>Throws\<close> when the block is
  left by an exception.\<close>

definition decode_body :: "json outcome \<Rightarrow> state \<Rightarrow> state outcome" where
  "decode_body parsed st =
     (case parsed of
        Throws e \<Rightarrow> Throws e
      | Returns data \<Rightarrow>
          (case get_field data ''temperature'' of
             Throws e \<Rightarrow> Throws e
           | Returns temperature \<Rightarrow>
               if truthy temperature then
                 Returns (st\<lparr>sensorData := data, statusMsg := ''Receiving sensor data...''\<rparr>)
               else
                 (case get_field data ''humidity'' of
                    Throws e \<Rightarrow> Throws e
                  | Returns humidity \<Rightarrow>
                      if truthy humidity then
                        Returns (st\<lparr>sensorData := data,
                                    statusMsg := ''Receiving sensor data...''\<rparr>)
                      else Returns st)))"

definition monitor_listener ::
    "string option \<Rightarrow> characteristic option \<Rightarrow> json outcome \<Rightarrow> state \<Rightarrow> state" where
  "monitor_listener error ch parsed st =
     (case error of
        Some message \<Rightarrow> emit [ConsoleError ''Notification error:'' message] st
      | None \<Rightarrow>
          (case ch of
             None \<Rightarrow> st
           | Some c \<Rightarrow>
               (case ch_value c of
                  None \<Rightarrow> st
                | Some v \<Rightarrow>
                    if v = [] then st
                    else
                      (case decode_body parsed st of
                         Returns st' \<Rightarrow> st'
                       | Throws e \<Rightarrow> emit [ConsoleLog ''Raw data received:'' v] st))))"

subsection \<open>Connector\<close>

text \<open>What \<^verbatim>\<open>device.connect()\<close>, \<^verbatim>\<open>discoverAllServicesAndCharacteristics()\<close> and
  \<^verbatim>\<open>services()\<close> resolve to.\<close>

record connect_env =
  connect_result :: "device outcome"
  discover_result :: "device outcome"
  services_result :: "service list outcome"

text \<open>The inner loop: subscribe to every notifiable characteristic of one service.\<close>

fun monitor_all :: "characteristic list \<Rightarrow> state \<Rightarrow> unit outcome \<times> state" where
  "monitor_all [] st = (Returns (), st)"
| "monitor_all (c # cs) st =
     (if isNotifiable c then
        (case monitor_result c of
           Throws e \<Rightarrow> (Throws e, emit [Monitor (ch_uuid c)] st)
         | Returns _ \<Rightarrow> monitor_all cs (emit [Monitor (ch_uuid c)] st))
      else monitor_all cs st)"

text \<open>The outer loop over the services.\<close>

fun visit_services :: "service list \<Rightarrow> state \<Rightarrow> unit outcome \<times> state" where
  "visit_services [] st = (Returns (), st)"
| "visit_services (s # ss) st =
     (let st1 = emit [ServiceCharacteristics (svc_uuid s)] st in
      case svc_characteristics s of
        Throws e \<Rightarrow> (Throws e, st1)
      | Returns characteristics \<Rightarrow>
          (case monitor_all characteristics st1 of
             (Throws e, st2) \<Rightarrow> (Throws e, st2)
           | (Returns _, st2) \<Rightarrow> visit_services ss st2))"

text \<open>The \<^verbatim>\<open>try\<close> block of \<^verbatim>\<open>connectToDevice\<close>. A resolved \<^verbatim>\<open>connect()\<close> opens a connection
  to the device it was called on.\<close>

definition connect_body :: "connect_env \<Rightarrow> device \<Rightarrow> state \<Rightarrow> unit outcome \<times> state" where
  "connect_body env dev st =
     (let st1 = (emit [DeviceConnect (dev_id dev)] st)
                  \<lparr>statusMsg := ''Connecting to '' @ js_str (dev_name dev) @ ''...''\<rparr> in
      case connect_result env of
        Throws e \<Rightarrow> (Throws e, st1)
      | Returns connectedDevice \<Rightarrow>
          (let st2 = (emit [DiscoverAll (dev_id connectedDevice)] st1)
                       \<lparr>held := List.insert (dev_id dev) (held st1)\<rparr> in
           case discover_result env of
             Throws e \<Rightarrow> (Throws e, st2)
           | Returns discoveredDevice \<Rightarrow>
               (let st3 = (emit [DeviceServices (dev_id discoveredDevice)] st2)
                            \<lparr>selectedDevice := Some discoveredDevice, connected := True,
                             statusMsg := ''Connected to '' @ js_str (dev_name dev)
                                          @ '' - Discovering services...''\<rparr> in
                case services_result env of
                  Throws e \<Rightarrow> (Throws e, st3)
                | Returns services \<Rightarrow>
                    (case visit_services services st3 of
                       (Throws e, st4) \<Rightarrow> (Throws e, st4)
                     | (Returns _, st4) \<Rightarrow>
                         (Returns (),
                          st4\<lparr>statusMsg := ''Connected and monitoring ''
                                            @ js_str (dev_name dev)\<rparr>)))))"

definition connectToDevice :: "connect_env \<Rightarrow> device \<Rightarrow> state \<Rightarrow> state" where
  "connectToDevice env dev st =
     (case connect_body env dev st of
        (Returns _, st') \<Rightarrow> st'
      | (Throws message, st') \<Rightarrow>
          (emit [ConsoleError ''Connection failed:'' message] st')
            \<lparr>statusMsg := ''Connection failed: '' @ message, connected := False\<rparr>)"

text \<open>\<open>cancel_result\<close> is what \<^verbatim>\<open>selectedDevice.cancelConnection()\<close> does.\<close>

definition disconnectDevice :: "unit outcome \<Rightarrow> state \<Rightarrow> state" where
  "disconnectDevice cancel_result st =
     (case selectedDevice st of
        None \<Rightarrow> st
      | Some d \<Rightarrow>
          (let st1 = emit [CancelConnection (dev_id d)] st in
           case cancel_result of
             Returns _ \<Rightarrow>
               st1\<lparr>held := removeAll (dev_id d) (held st1), selectedDevice := None,
                   connected := False, sensorData := JObj [],
                   statusMsg := ''Disconnected from device''\<rparr>
           | Throws message \<Rightarrow> emit [ConsoleError ''Disconnect failed:'' message] st1))"

text \<open>\<open>read_result\<close> is what \<^verbatim>\<open>selectedDevice.services()\<close> does.\<close>

definition readSensorData :: "unit outcome \<Rightarrow> state \<Rightarrow> state" where
  "readSensorData read_result st =
     (case selectedDevice st of
        None \<Rightarrow> st
      | Some d \<Rightarrow>
          (let st1 = (emit [DeviceServices (dev_id d)] st)
                       \<lparr>statusMsg := ''Reading sensor data...''\<rparr> in
           case read_result of
             Returns _ \<Rightarrow> st1\<lparr>statusMsg := ''Data read successfully''\<rparr>
           | Throws message \<Rightarrow>
               (emit [ConsoleError ''Read failed:'' message] st1)
                 \<lparr>statusMsg := ''Failed to read data''\<rparr>))"

section \<open>The component as a transition system\<close>

text \<open>
  What can happen to the mounted component: the platform calls one of the listeners, or the
  user presses a button. A button does nothing while the view disables or hides it: the
  scan button is disabled while \<^verbatim>\<open>scanning || bluetoothState !== 'PoweredOn'\<close>, a Connect
  button exists for each listed device and is disabled while \<^verbatim>\<open>connected\<close>, and the
  \<^verbatim>\<open>Read Data\<close> and \<^verbatim>\<open>Disconnect\<close> buttons are rendered while
  \<^verbatim>\<open>connected && selectedDevice\<close>. Each handler runs to its end before the next event.
\<close>

datatype event =
    StateChange ble_state
  | Mounted perm_env
  | PressScan perm_env "unit outcome"
  | ScanResult "string option" "device option"
  | PressConnect device connect_env
  | Notification "string option" "characteristic option" "json outcome"
  | PressDisconnect "unit outcome"
  | PressRead "unit outcome"

fun step :: "platform \<Rightarrow> event \<Rightarrow> state \<Rightarrow> state" where
  "step pf (StateChange s) st = onStateChange s st"
| "step pf (Mounted env) st =
     (case checkPermissions pf env st of (b, st') \<Rightarrow> st'\<lparr>permissionsGranted := b\<rparr>)"
| "step pf (PressScan env start_result) st =
     (if scanning st \<or> bluetoothState st \<noteq> PoweredOn then st
      else startBLEScan pf env start_result st)"
| "step pf (ScanResult error dev) st = scan_listener error dev st"
| "step pf (PressConnect dev env) st =
     (if dev \<in> set (devices st) \<and> \<not> connected st then connectToDevice env dev st else st)"
| "step pf (Notification error ch parsed) st = monitor_listener error ch parsed st"
| "step pf (PressDisconnect cancel_result) st =
     (if connected st \<and> selectedDevice st \<noteq> None then disconnectDevice cancel_result st
      else st)"
| "step pf (PressRead read_result) st =
     (if connected st \<and> selectedDevice st \<noteq> None then readSensorData read_result st
      else st)"

text \<open>Time: before an event that happens at time \<open>t\<close> is handled, every timer due by then
  has fired, in the order of the queue.\<close>

fun fire_due :: "nat \<Rightarrow> timer list \<Rightarrow> state \<Rightarrow> state" where
  "fire_due t [] st = st"
| "fire_due t (tm # tms) st =
     (if due tm \<le> t then fire_due t tms (timeout_callback tm st) else fire_due t tms st)"

definition advance :: "nat \<Rightarrow> state \<Rightarrow> state" where
  "advance t st =
     (fire_due t (timers st) st)
       \<lparr>timers := filter (\<lambda>tm. t < due tm) (timers st), clock := max t (clock st)\<rparr>"

fun run :: "platform \<Rightarrow> (nat \<times> event) list \<Rightarrow> state \<Rightarrow> state" where
  "run pf [] st = st"
| "run pf ((t, ev) # evs) st = run pf evs (step pf ev (advance t st))"

section \<open>Which handler touches which part of the state\<close>

text \<open>The permission functions and the two subscription loops only make calls: apart
  from \<open>effects\<close> they return the state they were given.\<close>

lemmas outcome_splits = outcome.splits option.splits prod.splits if_splits

lemma check_body_frame:
  "check_body pf env st = (r, st') \<Longrightarrow> st'\<lparr>effects := []\<rparr> = st\<lparr>effects := []\<rparr>"
  by (auto simp: check_body_def emit_def Let_def split: outcome_splits)

lemma checkPermissions_frame:
  "checkPermissions pf env st = (b, st') \<Longrightarrow> st'\<lparr>effects := []\<rparr> = st\<lparr>effects := []\<rparr>"
  by (auto simp: checkPermissions_def emit_def split: outcome_splits dest!: check_body_frame)

lemma requestPermissions_frame:
  "requestPermissions pf env st = (b, st') \<Longrightarrow> st'\<lparr>effects := []\<rparr> = st\<lparr>effects := []\<rparr>"
  by (auto simp: requestPermissions_def emit_def Let_def split: outcome_splits)

lemma monitor_all_frame:
  "monitor_all cs st = (r, st') \<Longrightarrow> st'\<lparr>effects := []\<rparr> = st\<lparr>effects := []\<rparr>"
proof (induction cs arbitrary: st)
  case Nil
  then show ?case by simp
next
  case (Cons c cs)
  show ?case
  proof (cases "isNotifiable c")
    case False
    with Cons show ?thesis by simp
  next
    case True
    show ?thesis
    proof (cases "monitor_result c")
      case (Throws e)
      with True Cons.prems show ?thesis by (auto simp: emit_def)
    next
      case (Returns u)
      with True Cons.prems have "monitor_all cs (emit [Monitor (ch_uuid c)] st) = (r, st')"
        by simp
      from Cons.IH [OF this] show ?thesis by (simp add: emit_def)
    qed
  qed
qed

lemma visit_services_frame:
  "visit_services ss st = (r, st') \<Longrightarrow> st'\<lparr>effects := []\<rparr> = st\<lparr>effects := []\<rparr>"
proof (induction ss arbitrary: st)
  case Nil
  then show ?case by simp
next
  case (Cons s ss)
  let ?st1 = "emit [ServiceCharacteristics (svc_uuid s)] st"
  show ?case
  proof (cases "svc_characteristics s")
    case (Throws e)
    with Cons.prems show ?thesis by (auto simp: emit_def Let_def)
  next
    case (Returns cs)
    obtain r2 st2 where m: "monitor_all cs ?st1 = (r2, st2)" by (cases "monitor_all cs ?st1")
    from monitor_all_frame [OF m] have f2: "st2\<lparr>effects := []\<rparr> = st\<lparr>effects := []\<rparr>"
      by (simp add: emit_def)
    show ?thesis
    proof (cases r2)
      case (Throws e)
      with Returns m Cons.prems f2 show ?thesis by (simp add: Let_def)
    next
      case (Returns u)
      with \<open>svc_characteristics s = Returns cs\<close> m Cons.prems
      have "visit_services ss st2 = (r, st')" by (simp add: Let_def)
      from Cons.IH [OF this] f2 show ?thesis by simp
    qed
  qed
qed

lemma quiet_fields:
  assumes "st'\<lparr>effects := []\<rparr> = st\<lparr>effects := []\<rparr>"
  shows "sensorData st' = sensorData st" and "devices st' = devices st"
    and "held st' = held st" and "timers st' = timers st" and "clock st' = clock st"
    and "scanSince st' = scanSince st" and "connected st' = connected st"
    and "selectedDevice st' = selectedDevice st" and "scanning st' = scanning st"
    and "statusMsg st' = statusMsg st" and "bluetoothState st' = bluetoothState st"
proof -
  have "sensorData (st'\<lparr>effects := []\<rparr>) = sensorData (st\<lparr>effects := []\<rparr>)"
    "devices (st'\<lparr>effects := []\<rparr>) = devices (st\<lparr>effects := []\<rparr>)"
    "held (st'\<lparr>effects := []\<rparr>) = held (st\<lparr>effects := []\<rparr>)"
    "timers (st'\<lparr>effects := []\<rparr>) = timers (st\<lparr>effects := []\<rparr>)"
    "clock (st'\<lparr>effects := []\<rparr>) = clock (st\<lparr>effects := []\<rparr>)"
    "scanSince (st'\<lparr>effects := []\<rparr>) = scanSince (st\<lparr>effects := []\<rparr>)"
    "connected (st'\<lparr>effects := []\<rparr>) = connected (st\<lparr>effects := []\<rparr>)"
    "selectedDevice (st'\<lparr>effects := []\<rparr>) = selectedDevice (st\<lparr>effects := []\<rparr>)"
    "scanning (st'\<lparr>effects := []\<rparr>) = scanning (st\<lparr>effects := []\<rparr>)"
    "statusMsg (st'\<lparr>effects := []\<rparr>) = statusMsg (st\<lparr>effects := []\<rparr>)"
    "bluetoothState (st'\<lparr>effects := []\<rparr>) = bluetoothState (st\<lparr>effects := []\<rparr>)"
    by (simp_all only: assms)
  then show "sensorData st' = sensorData st" and "devices st' = devices st"
    and "held st' = held st" and "timers st' = timers st" and "clock st' = clock st"
    and "scanSince st' = scanSince st" and "connected st' = connected st"
    and "selectedDevice st' = selectedDevice st" and "scanning st' = scanning st"
    and "statusMsg st' = statusMsg st" and "bluetoothState st' = bluetoothState st"
    by simp_all
qed

text \<open>What the remaining handlers leave alone, field by field.\<close>

lemma onStateChange_keeps:
  "sensorData (onStateChange s st) = sensorData st"
  "devices (onStateChange s st) = devices st"
  "held (onStateChange s st) = held st"
  "timers (onStateChange s st) = timers st"
  "clock (onStateChange s st) = clock st"
  "scanSince (onStateChange s st) = scanSince st"
  "effects (onStateChange s st) = effects st"
  by (simp_all add: onStateChange_def Let_def)

lemma readSensorData_keeps:
  "sensorData (readSensorData r st) = sensorData st"
  "devices (readSensorData r st) = devices st"
  "held (readSensorData r st) = held st"
  "timers (readSensorData r st) = timers st"
  "clock (readSensorData r st) = clock st"
  "scanSince (readSensorData r st) = scanSince st"
  by (auto simp: readSensorData_def emit_def Let_def split: outcome_splits)

lemma disconnectDevice_keeps:
  "devices (disconnectDevice r st) = devices st"
  "timers (disconnectDevice r st) = timers st"
  "clock (disconnectDevice r st) = clock st"
  "scanSince (disconnectDevice r st) = scanSince st"
  by (auto simp: disconnectDevice_def emit_def Let_def split: outcome_splits)

lemma decode_body_keeps:
  assumes "decode_body parsed st = Returns st'"
  shows "devices st' = devices st" and "held st' = held st" and "timers st' = timers st"
    and "clock st' = clock st" and "scanSince st' = scanSince st"
    and "effects st' = effects st"
  using assms by (auto simp: decode_body_def split: outcome_splits)

lemma monitor_listener_keeps:
  "devices (monitor_listener error ch parsed st) = devices st"
  "held (monitor_listener error ch parsed st) = held st"
  "timers (monitor_listener error ch parsed st) = timers st"
  "clock (monitor_listener error ch parsed st) = clock st"
  "scanSince (monitor_listener error ch parsed st) = scanSince st"
  by (auto simp: monitor_listener_def emit_def split: outcome_splits dest: decode_body_keeps)

lemma begin_scan_keeps:
  "sensorData (begin_scan r n st) = sensorData st"
  "held (begin_scan r n st) = held st"
  "connected (begin_scan r n st) = connected st"
  "selectedDevice (begin_scan r n st) = selectedDevice st"
  "clock (begin_scan r n st) = clock st"
  "devices (begin_scan r n st) = []"
  by (auto simp: begin_scan_def emit_def Let_def split: outcome_splits)

lemma startBLEScan_keeps:
  "sensorData (startBLEScan pf env r st) = sensorData st"
  "held (startBLEScan pf env r st) = held st"
  "connected (startBLEScan pf env r st) = connected st"
  "selectedDevice (startBLEScan pf env r st) = selectedDevice st"
  "clock (startBLEScan pf env r st) = clock st"
  by (auto simp: startBLEScan_def emit_def begin_scan_keeps split: prod.splits
      dest!: checkPermissions_frame requestPermissions_frame dest: quiet_fields)

lemma scan_listener_keeps:
  "sensorData (scan_listener error dev st) = sensorData st"
  "held (scan_listener error dev st) = held st"
  "connected (scan_listener error dev st) = connected st"
  "selectedDevice (scan_listener error dev st) = selectedDevice st"
  "clock (scan_listener error dev st) = clock st"
  "timers (scan_listener error dev st) = timers st"
  "scanSince (scan_listener error dev st) = scanSince st"
  by (auto simp: scan_listener_def emit_def Let_def split: option.splits)

lemma connect_body_keeps:
  assumes "connect_body env dev st = (r, st')"
  shows "sensorData st' = sensorData st" and "devices st' = devices st"
    and "timers st' = timers st" and "clock st' = clock st"
    and "scanSince st' = scanSince st" and "scanning st' = scanning st"
  using assms
  by (auto simp: connect_body_def emit_def Let_def split: outcome_splits
      dest!: visit_services_frame dest: quiet_fields)

lemma connectToDevice_keeps:
  "sensorData (connectToDevice env dev st) = sensorData st"
  "devices (connectToDevice env dev st) = devices st"
  "timers (connectToDevice env dev st) = timers st"
  "clock (connectToDevice env dev st) = clock st"
  "scanSince (connectToDevice env dev st) = scanSince st"
  "scanning (connectToDevice env dev st) = scanning st"
  by (auto simp: connectToDevice_def emit_def split: outcome_splits dest: connect_body_keeps)

lemma connect_body_held:
  "connect_body env dev st = (r, st') \<Longrightarrow>
     held st' = held st \<or> held st' = List.insert (dev_id dev) (held st)"
  by (auto simp: connect_body_def emit_def Let_def split: outcome_splits
      dest!: visit_services_frame dest: quiet_fields)

lemma connectToDevice_held:
  "held (connectToDevice env dev st) = held st
   \<or> held (connectToDevice env dev st) = List.insert (dev_id dev) (held st)"
proof -
  obtain r st' where b: "connect_body env dev st = (r, st')"
    by (cases "connect_body env dev st")
  with connect_body_held [OF b] show ?thesis
    by (cases r) (simp_all add: connectToDevice_def emit_def)
qed

lemma mounted_keeps:
  assumes "checkPermissions pf env st = (b, st')"
  shows "sensorData (st'\<lparr>permissionsGranted := b\<rparr>) = sensorData st"
  using quiet_fields [OF checkPermissions_frame [OF assms]] by simp

lemma mounted_devices:
  assumes "checkPermissions pf env st = (b, st')"
  shows "devices (st'\<lparr>permissionsGranted := b\<rparr>) = devices st"
  using quiet_fields [OF checkPermissions_frame [OF assms]] by simp

section \<open>Which calls a handler makes\<close>

text \<open>Calls are counted in \<open>effects\<close>: a handler that leaves the count of a call unchanged
  has not made that call.\<close>

lemma check_body_calls:
  "check_body pf env st = (r, st') \<Longrightarrow>
     count_list (effects st') StartDeviceScan = count_list (effects st) StartDeviceScan"
  by (auto simp: check_body_def emit_def Let_def split: outcome_splits)

lemma checkPermissions_calls:
  "checkPermissions pf env st = (b, st') \<Longrightarrow>
     count_list (effects st') StartDeviceScan = count_list (effects st) StartDeviceScan"
  by (auto simp: checkPermissions_def emit_def split: outcome_splits dest!: check_body_calls)

lemma requestPermissions_calls:
  "requestPermissions pf env st = (b, st') \<Longrightarrow>
     count_list (effects st') StartDeviceScan = count_list (effects st) StartDeviceScan"
  by (auto simp: requestPermissions_def emit_def Let_def split: outcome_splits)

lemma begin_scan_calls:
  "count_list (effects (begin_scan r n st)) StartDeviceScan
   = count_list (effects st) StartDeviceScan + 1"
  by (auto simp: begin_scan_def emit_def Let_def split: outcome_splits)

lemma quiet_count:
  "check_body pf env st = (r, st') \<Longrightarrow>
     count_list (effects st') StopDeviceScan = count_list (effects st) StopDeviceScan"
  by (auto simp: check_body_def emit_def Let_def split: outcome_splits)

lemma checkPermissions_stops:
  "checkPermissions pf env st = (b, st') \<Longrightarrow>
     count_list (effects st') StopDeviceScan = count_list (effects st) StopDeviceScan"
  by (auto simp: checkPermissions_def emit_def split: outcome_splits dest!: quiet_count)

lemma requestPermissions_stops:
  "requestPermissions pf env st = (b, st') \<Longrightarrow>
     count_list (effects st') StopDeviceScan = count_list (effects st) StopDeviceScan"
  by (auto simp: requestPermissions_def emit_def Let_def split: outcome_splits)

lemma monitor_all_count:
  "monitor_all cs st = (r, st') \<Longrightarrow> \<forall>u. Monitor u \<noteq> e \<Longrightarrow>
     count_list (effects st') e = count_list (effects st) e"
proof (induction cs arbitrary: st)
  case Nil
  then show ?case by simp
next
  case (Cons c cs)
  show ?case
  proof (cases "isNotifiable c")
    case False
    with Cons show ?thesis by simp
  next
    case True
    show ?thesis
    proof (cases "monitor_result c")
      case (Throws m)
      with True Cons.prems show ?thesis by (auto simp: emit_def)
    next
      case (Returns u)
      with True Cons.prems have "monitor_all cs (emit [Monitor (ch_uuid c)] st) = (r, st')"
        by simp
      from Cons.IH [OF this Cons.prems(2)] Cons.prems(2) show ?thesis by (simp add: emit_def)
    qed
  qed
qed

lemma visit_services_count:
  "visit_services ss st = (r, st') \<Longrightarrow> \<forall>u. Monitor u \<noteq> e \<Longrightarrow>
     \<forall>u. ServiceCharacteristics u \<noteq> e \<Longrightarrow>
     count_list (effects st') e = count_list (effects st) e"
proof (induction ss arbitrary: st)
  case Nil
  then show ?case by simp
next
  case (Cons s ss)
  let ?st1 = "emit [ServiceCharacteristics (svc_uuid s)] st"
  have c1: "count_list (effects ?st1) e = count_list (effects st) e"
    using Cons.prems(3) by (simp add: emit_def)
  show ?case
  proof (cases "svc_characteristics s")
    case (Throws m)
    with Cons.prems(1) c1 show ?thesis by (auto simp: Let_def)
  next
    case (Returns cs)
    obtain r2 st2 where m: "monitor_all cs ?st1 = (r2, st2)" by (cases "monitor_all cs ?st1")
    from monitor_all_count [OF m Cons.prems(2)] c1
    have c2: "count_list (effects st2) e = count_list (effects st) e" by simp
    show ?thesis
    proof (cases r2)
      case (Throws m')
      with Returns m Cons.prems(1) c2 show ?thesis by (simp add: Let_def)
    next
      case (Returns u)
      with \<open>svc_characteristics s = Returns cs\<close> m Cons.prems(1)
      have "visit_services ss st2 = (r, st')" by (simp add: Let_def)
      from Cons.IH [OF this Cons.prems(2,3)] c2 show ?thesis by simp
    qed
  qed
qed

lemma connect_body_count:
  assumes "connect_body env dev st = (r, st')"
    and "e = StartDeviceScan \<or> e = StopDeviceScan \<or> (\<exists>x. e = CancelConnection x)
         \<or> (\<exists>x. e = DeviceConnect x)"
  shows "count_list (effects st') e
         = count_list (effects st) e + (if e = DeviceConnect (dev_id dev) then 1 else 0)"
proof -
  from assms(2) have q: "\<forall>u. Monitor u \<noteq> e" "\<forall>u. ServiceCharacteristics u \<noteq> e"
    and n: "\<forall>u. DiscoverAll u \<noteq> e" "\<forall>u. DeviceServices u \<noteq> e"
    by auto
  show ?thesis
    using assms(1) n
    by (auto simp: connect_body_def emit_def Let_def split: outcome_splits
        dest!: visit_services_count [OF _ q])
qed

lemma connectToDevice_count:
  assumes "e = StartDeviceScan \<or> e = StopDeviceScan \<or> (\<exists>x. e = CancelConnection x)
         \<or> (\<exists>x. e = DeviceConnect x)"
  shows "count_list (effects (connectToDevice env dev st)) e
         = count_list (effects st) e + (if e = DeviceConnect (dev_id dev) then 1 else 0)"
proof -
  obtain r st' where b: "connect_body env dev st = (r, st')"
    by (cases "connect_body env dev st")
  from assms have "\<forall>a b. ConsoleError a b \<noteq> e" by auto
  with connect_body_count [OF b assms] b show ?thesis
    by (cases r) (simp_all add: connectToDevice_def emit_def)
qed

lemma scan_listener_stops:
  "count_list (effects (scan_listener error dev st)) StopDeviceScan
   = count_list (effects st) StopDeviceScan"
  by (auto simp: scan_listener_def emit_def Let_def split: option.splits)

lemma monitor_listener_stops:
  "count_list (effects (monitor_listener error ch parsed st)) StopDeviceScan
   = count_list (effects st) StopDeviceScan"
  by (auto simp: monitor_listener_def emit_def split: outcome_splits dest: decode_body_keeps)

lemma disconnectDevice_stops:
  "count_list (effects (disconnectDevice r st)) StopDeviceScan
   = count_list (effects st) StopDeviceScan"
  by (auto simp: disconnectDevice_def emit_def Let_def split: outcome_splits)

lemma readSensorData_stops:
  "count_list (effects (readSensorData r st)) StopDeviceScan
   = count_list (effects st) StopDeviceScan"
  by (auto simp: readSensorData_def emit_def Let_def split: outcome_splits)

lemma mounted_timers:
  assumes "checkPermissions pf env st = (b, st')"
  shows "timers (st'\<lparr>permissionsGranted := b\<rparr>) = timers st"
    and "clock (st'\<lparr>permissionsGranted := b\<rparr>) = clock st"
    and "count_list (effects (st'\<lparr>permissionsGranted := b\<rparr>)) StopDeviceScan
         = count_list (effects st) StopDeviceScan"
  using quiet_fields [OF checkPermissions_frame [OF assms]] checkPermissions_stops [OF assms]
  by simp_all

lemma begin_scan_timers:
  "begin_scan (Returns u) n st =
     st\<lparr>scanning := True, statusMsg := ''Scanning for BLE devices...'', devices := [],
        effects := effects st @ [StartDeviceScan, SetTimeout 10000],
        scanSince := Some (clock st),
        timers := timers st @ [\<lparr>due = clock st + 10000, found = n\<rparr>]\<rparr>"
  "timers (begin_scan (Throws m) n st) = timers st"
  "count_list (effects (begin_scan r n st)) StopDeviceScan
     = count_list (effects st) StopDeviceScan"
  by (auto simp: begin_scan_def emit_def Let_def split: outcome_splits)

lemma startBLEScan_timers:
  "(timers (startBLEScan pf env r st) = timers st
    \<or> timers (startBLEScan pf env r st)
        = timers st @ [\<lparr>due = clock st + 10000, found = length (devices st)\<rparr>])
   \<and> count_list (effects (startBLEScan pf env r st)) StopDeviceScan
       = count_list (effects st) StopDeviceScan"
proof -
  obtain b st1 where c: "checkPermissions pf env st = (b, st1)"
    by (cases "checkPermissions pf env st")
  obtain g st2 where q: "requestPermissions pf env st1 = (g, st2)"
    by (cases "requestPermissions pf env st1")
  note f1 = quiet_fields [OF checkPermissions_frame [OF c]]
  note f2 = quiet_fields [OF requestPermissions_frame [OF q]]
  note c1 = checkPermissions_stops [OF c]
  note c2 = requestPermissions_stops [OF q]
  show ?thesis
    using c q f1 f2 c1 c2
    by (cases r) (auto simp: startBLEScan_def emit_def begin_scan_timers)
qed

lemma startBLEScan_cases:
  "(bluetoothState st = PoweredOn
      \<and> (fst (checkPermissions pf env st)
          \<or> fst (requestPermissions pf env (snd (checkPermissions pf env st))))
      \<and> count_list (effects (startBLEScan pf env r st)) StartDeviceScan
          = count_list (effects st) StartDeviceScan + 1
      \<and> devices (startBLEScan pf env r st) = []
      \<and> (\<forall>u. r = Returns u \<longrightarrow>
            timers (startBLEScan pf env r st)
            = timers st @ [\<lparr>due = clock st + 10000, found = length (devices st)\<rparr>]
            \<and> scanSince (startBLEScan pf env r st) = Some (clock st)))
   \<or> (\<not> (bluetoothState st = PoweredOn
          \<and> (fst (checkPermissions pf env st)
              \<or> fst (requestPermissions pf env (snd (checkPermissions pf env st)))))
      \<and> count_list (effects (startBLEScan pf env r st)) StartDeviceScan
          = count_list (effects st) StartDeviceScan
      \<and> devices (startBLEScan pf env r st) = devices st
      \<and> scanning (startBLEScan pf env r st) = scanning st
      \<and> scanSince (startBLEScan pf env r st) = scanSince st
      \<and> timers (startBLEScan pf env r st) = timers st)"
proof -
  obtain b st1 where c: "checkPermissions pf env st = (b, st1)"
    by (cases "checkPermissions pf env st")
  obtain g st2 where q: "requestPermissions pf env st1 = (g, st2)"
    by (cases "requestPermissions pf env st1")
  note f1 = quiet_fields [OF checkPermissions_frame [OF c]]
  note f2 = quiet_fields [OF requestPermissions_frame [OF q]]
  note c1 = checkPermissions_calls [OF c]
  note c2 = requestPermissions_calls [OF q]
  show ?thesis
    using c q f1 f2 c1 c2
    by (auto simp: startBLEScan_def emit_def begin_scan_calls begin_scan_keeps
        begin_scan_timers)
qed

lemma step_timers:
  "(timers (step pf ev st) = timers st
    \<or> timers (step pf ev st)
        = timers st @ [\<lparr>due = clock st + 10000, found = length (devices st)\<rparr>])
   \<and> count_list (effects (step pf ev st)) StopDeviceScan
       = count_list (effects st) StopDeviceScan
   \<and> clock (step pf ev st) = clock st"
proof (cases ev)
  case (StateChange s)
  then show ?thesis by (simp add: onStateChange_keeps)
next
  case (Mounted env)
  then show ?thesis by (auto split: prod.splits dest: mounted_timers)
next
  case (PressScan env r)
  then show ?thesis using startBLEScan_timers [of pf env r st] by (simp add: startBLEScan_keeps)
next
  case (ScanResult error dev)
  then show ?thesis by (simp add: scan_listener_keeps scan_listener_stops)
next
  case (PressConnect dev env)
  then show ?thesis
    using connectToDevice_count [of StopDeviceScan env dev st]
    by (simp add: connectToDevice_keeps)
next
  case (Notification error ch parsed)
  then show ?thesis by (simp add: monitor_listener_keeps monitor_listener_stops)
next
  case (PressDisconnect r)
  then show ?thesis by (simp add: disconnectDevice_keeps disconnectDevice_stops)
next
  case (PressRead r)
  then show ?thesis by (simp add: readSensorData_keeps readSensorData_stops)
qed

section \<open>The timer queue\<close>

lemma fire_due_early:
  "\<forall>tm \<in> set tms. t < due tm \<Longrightarrow> fire_due t tms st = st"
  by (induction tms arbitrary: st) simp_all

lemma advance_early:
  assumes "\<forall>tm \<in> set (timers st). t < due tm"
  shows "advance t st = st\<lparr>clock := max t (clock st)\<rparr>"
proof -
  from assms have "filter (\<lambda>tm. t < due tm) (timers st) = timers st" by simp
  with fire_due_early [OF assms] show ?thesis by (simp add: advance_def)
qed

lemma run_before_deadline:
  assumes "\<forall>tm \<in> set (timers st). D \<le> due tm" and "D \<le> clock st + 10000"
    and "\<forall>(t, ev) \<in> set evs. t < D"
  shows "count_list (effects (run pf evs st)) StopDeviceScan
           = count_list (effects st) StopDeviceScan
         \<and> set (timers st) \<subseteq> set (timers (run pf evs st))"
  using assms
proof (induction evs arbitrary: st)
  case Nil
  then show ?case by simp
next
  case (Cons tev evs)
  obtain t ev where tev: "tev = (t, ev)" by (cases tev)
  with Cons.prems(3) have t: "t < D" and rest: "\<forall>(t, ev) \<in> set evs. t < D" by auto
  let ?a = "st\<lparr>clock := max t (clock st)\<rparr>"
  let ?s = "step pf ev ?a"
  from Cons.prems(1) t have "\<forall>tm \<in> set (timers st). t < due tm" by fastforce
  from advance_early [OF this] have adv: "advance t st = ?a" .
  from step_timers [of pf ev ?a]
  have tm: "timers ?s = timers st
      \<or> timers ?s = timers st @ [\<lparr>due = max t (clock st) + 10000, found = length (devices st)\<rparr>]"
    and cnt: "count_list (effects ?s) StopDeviceScan = count_list (effects st) StopDeviceScan"
    and clk: "clock ?s = max t (clock st)"
    by simp_all
  from tm Cons.prems(1,2) have p1: "\<forall>tm \<in> set (timers ?s). D \<le> due tm" by auto
  from clk Cons.prems(2) have p2: "D \<le> clock ?s + 10000" by simp
  from tm have sub: "set (timers st) \<subseteq> set (timers ?s)" by auto
  from Cons.IH [OF p1 p2 rest] cnt sub tev adv show ?case by auto
qed

lemma fire_due_stopped:
  "\<not> scanning st \<Longrightarrow> scanSince st = None \<Longrightarrow>
     \<not> scanning (fire_due t tms st) \<and> scanSince (fire_due t tms st) = None"
  by (induction tms arbitrary: st) (simp_all add: timeout_callback_def emit_def)

lemma fire_due_mono:
  "count_list (effects st) StopDeviceScan
   \<le> count_list (effects (fire_due t tms st)) StopDeviceScan"
proof (induction tms arbitrary: st)
  case Nil
  then show ?case by simp
next
  case (Cons tm tms)
  have "count_list (effects st) StopDeviceScan
        \<le> count_list (effects (timeout_callback tm st)) StopDeviceScan"
    by (simp add: timeout_callback_def emit_def)
  with Cons [of "timeout_callback tm st"] Cons [of st] show ?case
    by (auto intro: order_trans)
qed

lemma fire_due_fires:
  "\<exists>tm \<in> set tms. due tm \<le> t \<Longrightarrow>
     \<not> scanning (fire_due t tms st) \<and> scanSince (fire_due t tms st) = None
     \<and> count_list (effects st) StopDeviceScan
         < count_list (effects (fire_due t tms st)) StopDeviceScan"
proof (induction tms arbitrary: st)
  case Nil
  then show ?case by simp
next
  case (Cons tm tms)
  show ?case
  proof (cases "due tm \<le> t")
    case True
    let ?c = "timeout_callback tm st"
    have c: "\<not> scanning ?c" "scanSince ?c = None"
      "count_list (effects ?c) StopDeviceScan = count_list (effects st) StopDeviceScan + 1"
      by (simp_all add: timeout_callback_def emit_def)
    from fire_due_stopped [OF c(1,2)] fire_due_mono [of ?c t tms] c(3) True
    show ?thesis by simp
  next
    case False
    with Cons.prems have "\<exists>tm \<in> set tms. due tm \<le> t" by auto
    from Cons.IH [OF this] False show ?thesis by simp
  qed
qed

lemma advance_fires:
  assumes "\<exists>tm \<in> set (timers st). due tm \<le> t"
  shows "\<not> scanning (advance t st) \<and> scanSince (advance t st) = None
     \<and> count_list (effects st) StopDeviceScan
         < count_list (effects (advance t st)) StopDeviceScan"
  using fire_due_fires [OF assms, of st] by (simp add: advance_def)

lemma fire_due_devices: "devices (fire_due t tms st) = devices st"
  by (induction tms arbitrary: st) (simp_all add: timeout_callback_def emit_def)

lemma advance_devices: "devices (advance t st) = devices st"
  by (simp add: advance_def fire_due_devices)

section \<open>The device list and the sensor readings along a run\<close>

lemma startBLEScan_devices:
  "devices (startBLEScan pf env r st) = devices st \<or> devices (startBLEScan pf env r st) = []"
  by (auto simp: startBLEScan_def emit_def begin_scan_keeps split: prod.splits
      dest!: checkPermissions_frame requestPermissions_frame dest: quiet_fields)

lemma find_None_id:
  "find (\<lambda>x. dev_id x = i) ds = None \<Longrightarrow> i \<notin> dev_id ` set ds"
  by (auto simp: find_None_iff)

lemma scan_listener_named_distinct:
  assumes "distinct (map dev_id (devices st))"
    and "\<forall>d \<in> set (devices st). dev_name d \<noteq> None \<and> dev_name d \<noteq> Some []"
  shows "distinct (map dev_id (devices (scan_listener error dev st)))
    \<and> (\<forall>d \<in> set (devices (scan_listener error dev st)).
         dev_name d \<noteq> None \<and> dev_name d \<noteq> Some [])"
  using assms
  by (auto simp: scan_listener_def emit_def Let_def split: option.splits dest: find_None_id)

lemma step_named_distinct:
  assumes "distinct (map dev_id (devices st))"
    and "\<forall>d \<in> set (devices st). dev_name d \<noteq> None \<and> dev_name d \<noteq> Some []"
  shows "distinct (map dev_id (devices (step pf ev st)))
    \<and> (\<forall>d \<in> set (devices (step pf ev st)). dev_name d \<noteq> None \<and> dev_name d \<noteq> Some [])"
proof (cases ev)
  case (StateChange s)
  with assms show ?thesis by (simp add: onStateChange_keeps)
next
  case (Mounted env)
  with assms show ?thesis by (auto split: prod.splits dest: mounted_devices)
next
  case (PressScan env r)
  with assms startBLEScan_devices [of pf env r st] show ?thesis by auto
next
  case (ScanResult error dev)
  with scan_listener_named_distinct [OF assms] show ?thesis by simp
next
  case (PressConnect dev env)
  with assms show ?thesis by (simp add: connectToDevice_keeps)
next
  case (Notification error ch parsed)
  with assms show ?thesis by (simp add: monitor_listener_keeps)
next
  case (PressDisconnect r)
  with assms show ?thesis by (simp add: disconnectDevice_keeps)
next
  case (PressRead r)
  with assms show ?thesis by (simp add: readSensorData_keeps)
qed

lemma run_named_distinct:
  assumes "distinct (map dev_id (devices st))"
    and "\<forall>d \<in> set (devices st). dev_name d \<noteq> None \<and> dev_name d \<noteq> Some []"
  shows "distinct (map dev_id (devices (run pf evs st)))
    \<and> (\<forall>d \<in> set (devices (run pf evs st)). dev_name d \<noteq> None \<and> dev_name d \<noteq> Some [])"
  using assms
proof (induction evs arbitrary: st)
  case Nil
  then show ?case by simp
next
  case (Cons tev evs)
  obtain t ev where tev: "tev = (t, ev)" by (cases tev)
  from Cons.prems have
    "distinct (map dev_id (devices (advance t st)))"
    "\<forall>d \<in> set (devices (advance t st)). dev_name d \<noteq> None \<and> dev_name d \<noteq> Some []"
    by (simp_all add: advance_devices)
  from step_named_distinct [OF this, of pf ev]
  have "distinct (map dev_id (devices (step pf ev (advance t st))))"
    "\<forall>d \<in> set (devices (step pf ev (advance t st))). dev_name d \<noteq> None \<and> dev_name d \<noteq> Some []"
    by simp_all
  from Cons.IH [OF this] tev show ?case by simp
qed

lemma decode_body_sensorData:
  "decode_body parsed st = Returns st' \<Longrightarrow>
     sensorData st' = sensorData st \<or> parsed = Returns (sensorData st')"
  by (auto simp: decode_body_def split: outcome_splits)

lemma monitor_listener_sensorData:
  "sensorData (monitor_listener error ch parsed st) = sensorData st
   \<or> (error = None \<and> parsed = Returns (sensorData (monitor_listener error ch parsed st)))"
  by (auto simp: monitor_listener_def emit_def split: outcome_splits dest: decode_body_sensorData)

lemma step_sensorData:
  "sensorData (step pf ev st) = sensorData st
   \<or> (\<exists>ch data. ev = Notification None ch (Returns data) \<and> sensorData (step pf ev st) = data)
   \<or> (\<exists>u. ev = PressDisconnect (Returns u) \<and> sensorData (step pf ev st) = JObj [])"
proof (cases ev)
  case (StateChange s)
  then show ?thesis by (simp add: onStateChange_keeps)
next
  case (Mounted env)
  then show ?thesis by (auto split: prod.splits dest: mounted_keeps)
next
  case (PressScan env r)
  then show ?thesis by (simp add: startBLEScan_keeps)
next
  case (ScanResult error dev)
  then show ?thesis by (simp add: scan_listener_keeps)
next
  case (PressConnect dev env)
  then show ?thesis by (simp add: connectToDevice_keeps)
next
  case (Notification error ch parsed)
  then show ?thesis using monitor_listener_sensorData [of error ch parsed st] by auto
next
  case (PressDisconnect r)
  then show ?thesis
    by (cases r) (auto simp: disconnectDevice_def emit_def Let_def split: option.splits)
next
  case (PressRead r)
  then show ?thesis by (simp add: readSensorData_keeps)
qed

lemma all_values_granted:
  "distinct (map fst kvs) \<Longrightarrow>
     list_all (\<lambda>s. s = GRANTED) (map snd kvs)
     = (\<forall>p \<in> set (map fst kvs). map_of kvs p = Some GRANTED)"
proof (induction kvs)
  case Nil
  then show ?case by simp
next
  case (Cons kv kvs)
  obtain k v where kv: "kv = (k, v)" by (cases kv)
  from Cons.prems kv have fresh: "k \<notin> fst ` set kvs" and d: "distinct (map fst kvs)"
    by simp_all
  from fresh have "\<forall>p \<in> set (map fst kvs). p \<noteq> k" by auto
  with Cons.IH [OF d] kv show ?case by auto
qed

text \<open>The definitions a concrete run unfolds to.\<close>

lemmas eval_defs = initial_def advance_def onStateChange_def startBLEScan_def
  checkPermissions_def begin_scan_def emit_def scan_listener_def connectToDevice_def
  connect_body_def timeout_callback_def Let_def

section \<open>Properties\<close>

text \<open>
  C1. A notification whose payload parses to an object with a \<^verbatim>\<open>temperature\<close> or a
  \<^verbatim>\<open>humidity\<close> field should replace the displayed readings, whatever number the field
  holds. The listener tests \<^verbatim>\<open>data.temperature || data.humidity\<close>, which is false for a
  zero: a payload that reports 0 degrees and no humidity, or 0 for both, changes nothing,
  neither the readings nor the status message.
\<close>

theorem zero_reading_dropped:
  \<open>monitor_listener None
      (Some \<lparr>ch_uuid = ''2A6E'', isNotifiable = True, ch_value = Some ''{"temperature":0}'',
             monitor_result = Returns ()\<rparr>)
      (Returns (JObj [(''temperature'', JNum (Finite 0 0))])) st = st
    \<and> monitor_listener None
      (Some \<lparr>ch_uuid = ''2A6E'', isNotifiable = True,
             ch_value = Some ''{"temperature":0,"humidity":0}'', monitor_result = Returns ()\<rparr>)
      (Returns (JObj [(''temperature'', JNum (Finite 0 0)), (''humidity'', JNum (Finite 0 0))]))
      st = st\<close>
  by (simp add: monitor_listener_def decode_body_def)

text \<open>
  C2. \<open>connectToDevice\<close> never cancels a connection: every connection held before the call
  is held after it, the call opens at most one more (to the device it is given), and it
  makes no \<^verbatim>\<open>cancelConnection\<close> call. The view only offers Connect while the connection
  flag is false. This does not bound the number of connections held by one.
\<close>

theorem connectToDevice_keeps_connections:
  "set (held st) \<subseteq> set (held (connectToDevice env dev st))
   \<and> set (held (connectToDevice env dev st)) \<subseteq> insert (dev_id dev) (set (held st))
   \<and> count_list (effects (connectToDevice env dev st)) (CancelConnection x)
       = count_list (effects st) (CancelConnection x)
   \<and> (connected st \<longrightarrow> step pf (PressConnect dev env) st = st)"
  using connectToDevice_held [of env dev st]
    connectToDevice_count [of "CancelConnection x" env dev st]
  by auto

theorem connectToDevice_keeps_connections_witness:
  "connected (initial\<lparr>connected := True, held := [''A1'']\<rparr>)
   \<and> step \<lparr>os = IOS, version = 17\<rparr>
        (PressConnect \<lparr>dev_id = ''B2'', dev_name = Some ''ESP32-b''\<rparr>
           \<lparr>connect_result = Returns \<lparr>dev_id = ''B2'', dev_name = Some ''ESP32-b''\<rparr>,
            discover_result = Returns \<lparr>dev_id = ''B2'', dev_name = Some ''ESP32-b''\<rparr>,
            services_result = Returns []\<rparr>)
        (initial\<lparr>connected := True, held := [''A1'']\<rparr>)
     = initial\<lparr>connected := True, held := [''A1'']\<rparr>
   \<and> set (held (initial\<lparr>connected := True, held := [''A1'']\<rparr>))
     \<subseteq> set (held (connectToDevice
           \<lparr>connect_result = Returns \<lparr>dev_id = ''B2'', dev_name = Some ''ESP32-b''\<rparr>,
            discover_result = Returns \<lparr>dev_id = ''B2'', dev_name = Some ''ESP32-b''\<rparr>,
            services_result = Returns []\<rparr>
           \<lparr>dev_id = ''B2'', dev_name = Some ''ESP32-b''\<rparr>
           (initial\<lparr>connected := True, held := [''A1'']\<rparr>)))"
  using connectToDevice_keeps_connections [of "initial\<lparr>connected := True, held := [''A1'']\<rparr>"
      "\<lparr>connect_result = Returns \<lparr>dev_id = ''B2'', dev_name = Some ''ESP32-b''\<rparr>,
            discover_result = Returns \<lparr>dev_id = ''B2'', dev_name = Some ''ESP32-b''\<rparr>,
            services_result = Returns []\<rparr>"
      "\<lparr>dev_id = ''B2'', dev_name = Some ''ESP32-b''\<rparr>" "''A1''"
      "\<lparr>os = IOS, version = 17\<rparr>"]
  by (simp add: initial_def)

text \<open>
  Two connections held at once: the first attempt fails in service discovery after
  \<^verbatim>\<open>connect()\<close> has resolved, which resets the connection flag and leaves the connection
  open; Connect is enabled again and a second device is connected.
\<close>

theorem two_connections_held:
  "held (run \<lparr>os = IOS, version = 17\<rparr>
      [(0, StateChange PoweredOn),
       (1000, PressScan \<lparr>check_fine = Returns True, check_coarse = Returns True,
                 check_scan = Returns True, check_connect = Returns True,
                 request_result = Returns []\<rparr> (Returns ())),
       (2000, ScanResult None (Some \<lparr>dev_id = ''A1'', dev_name = Some ''ESP32-a''\<rparr>)),
       (3000, ScanResult None (Some \<lparr>dev_id = ''B2'', dev_name = Some ''ESP32-b''\<rparr>)),
       (4000, PressConnect \<lparr>dev_id = ''A1'', dev_name = Some ''ESP32-a''\<rparr>
                 \<lparr>connect_result = Returns \<lparr>dev_id = ''A1'', dev_name = Some ''ESP32-a''\<rparr>,
                  discover_result = Throws ''Operation timed out'',
                  services_result = Returns []\<rparr>),
       (5000, PressConnect \<lparr>dev_id = ''B2'', dev_name = Some ''ESP32-b''\<rparr>
                 \<lparr>connect_result = Returns \<lparr>dev_id = ''B2'', dev_name = Some ''ESP32-b''\<rparr>,
                  discover_result = Returns \<lparr>dev_id = ''B2'', dev_name = Some ''ESP32-b''\<rparr>,
                  services_result = Returns []\<rparr>)]
      initial) = [''B2'', ''A1'']"
  by (simp add: initial_def advance_def onStateChange_def startBLEScan_def checkPermissions_def
      begin_scan_def emit_def scan_listener_def connectToDevice_def connect_body_def Let_def)

text \<open>
  C3. Whenever \<open>startBLEScan\<close> calls \<^verbatim>\<open>startDeviceScan\<close>, the device list has been reset to
  empty. Starting from an empty list, any sequence of scan-result callbacks leaves a list in
  which no two devices have the same identifier and every device has a non-empty name; the
  same holds of the list after any sequence of events from the initial state.
\<close>

theorem devices_named_distinct:
  "(count_list (effects (startBLEScan pf env r st0)) StartDeviceScan
      \<noteq> count_list (effects st0) StartDeviceScan \<longrightarrow> devices (startBLEScan pf env r st0) = [])
   \<and> (devices st = [] \<longrightarrow>
        distinct (map dev_id (devices (run pf (map (\<lambda>(t, e, d). (t, ScanResult e d)) cbs) st)))
        \<and> (\<forall>d \<in> set (devices (run pf (map (\<lambda>(t, e, d). (t, ScanResult e d)) cbs) st)).
              dev_name d \<noteq> None \<and> dev_name d \<noteq> Some []))
   \<and> distinct (map dev_id (devices (run pf evs initial)))
   \<and> (\<forall>d \<in> set (devices (run pf evs initial)). dev_name d \<noteq> None \<and> dev_name d \<noteq> Some [])"
proof (intro conjI impI)
  assume "count_list (effects (startBLEScan pf env r st0)) StartDeviceScan
      \<noteq> count_list (effects st0) StartDeviceScan"
  then show "devices (startBLEScan pf env r st0) = []"
    using startBLEScan_cases [of st0 pf env r] by auto
next
  assume e: "devices st = []"
  then show "distinct (map dev_id (devices (run pf (map (\<lambda>(t, e, d). (t, ScanResult e d)) cbs) st)))"
    using run_named_distinct [of st pf] by simp
  from e show "\<forall>d \<in> set (devices (run pf (map (\<lambda>(t, e, d). (t, ScanResult e d)) cbs) st)).
              dev_name d \<noteq> None \<and> dev_name d \<noteq> Some []"
    using run_named_distinct [of st pf] by simp
next
  show "distinct (map dev_id (devices (run pf evs initial)))"
    using run_named_distinct [of initial pf evs] by (simp add: initial_def)
  show "\<forall>d \<in> set (devices (run pf evs initial)). dev_name d \<noteq> None \<and> dev_name d \<noteq> Some []"
    using run_named_distinct [of initial pf evs] by (simp add: initial_def)
qed

theorem devices_named_distinct_witness:
  "devices (initial\<lparr>bluetoothState := PoweredOn\<rparr>) = []
   \<and> devices (run \<lparr>os = IOS, version = 17\<rparr>
        (map (\<lambda>(t, e, d). (t, ScanResult e d))
          [(100, None, Some \<lparr>dev_id = ''A1'', dev_name = Some ''ESP32''\<rparr>),
           (200, None, Some \<lparr>dev_id = ''C3'', dev_name = None\<rparr>),
           (300, None, Some \<lparr>dev_id = ''A1'', dev_name = Some ''ESP32''\<rparr>),
           (400, None, Some \<lparr>dev_id = ''D4'', dev_name = Some ''''\<rparr>)])
        (initial\<lparr>bluetoothState := PoweredOn\<rparr>))
     = [\<lparr>dev_id = ''A1'', dev_name = Some ''ESP32''\<rparr>]
   \<and> count_list (effects (startBLEScan \<lparr>os = IOS, version = 17\<rparr>
        \<lparr>check_fine = Returns True, check_coarse = Returns True, check_scan = Returns True,
         check_connect = Returns True, request_result = Returns []\<rparr> (Returns ())
        (initial\<lparr>bluetoothState := PoweredOn,
                 devices := [\<lparr>dev_id = ''A1'', dev_name = Some ''ESP32''\<rparr>]\<rparr>)))
        StartDeviceScan
     \<noteq> count_list (effects (initial\<lparr>bluetoothState := PoweredOn,
                 devices := [\<lparr>dev_id = ''A1'', dev_name = Some ''ESP32''\<rparr>]\<rparr>))
        StartDeviceScan
   \<and> devices (startBLEScan \<lparr>os = IOS, version = 17\<rparr>
        \<lparr>check_fine = Returns True, check_coarse = Returns True, check_scan = Returns True,
         check_connect = Returns True, request_result = Returns []\<rparr> (Returns ())
        (initial\<lparr>bluetoothState := PoweredOn,
                 devices := [\<lparr>dev_id = ''A1'', dev_name = Some ''ESP32''\<rparr>]\<rparr>)) = []"
  using devices_named_distinct [of "\<lparr>os = IOS, version = 17\<rparr>"
      "\<lparr>check_fine = Returns True, check_coarse = Returns True, check_scan = Returns True,
         check_connect = Returns True, request_result = Returns []\<rparr>" "Returns ()"
      "initial\<lparr>bluetoothState := PoweredOn,
                 devices := [\<lparr>dev_id = ''A1'', dev_name = Some ''ESP32''\<rparr>]\<rparr>"
      "initial\<lparr>bluetoothState := PoweredOn\<rparr>"
      "[(100, None, Some \<lparr>dev_id = ''A1'', dev_name = Some ''ESP32''\<rparr>),
           (200, None, Some \<lparr>dev_id = ''C3'', dev_name = None\<rparr>),
           (300, None, Some \<lparr>dev_id = ''A1'', dev_name = Some ''ESP32''\<rparr>),
           (400, None, Some \<lparr>dev_id = ''D4'', dev_name = Some ''''\<rparr>)]" "[]"]
  by (simp add: eval_defs)

text \<open>
  C4. Whatever happens, the sensor readings either stay as they are, or become exactly the
  object just parsed from a notification (nothing of the old readings is kept), or become
  the empty object through a disconnect. A parsed object with a truthy \<^verbatim>\<open>temperature\<close> or
  \<^verbatim>\<open>humidity\<close> does replace the readings, and \<open>disconnectDevice\<close> on a selected device
  whose \<^verbatim>\<open>cancelConnection()\<close> resolves clears them.
\<close>

theorem sensorData_replaced_wholesale:
  "(sensorData (step pf ev st) = sensorData st
    \<or> (\<exists>ch data. ev = Notification None ch (Returns data)
          \<and> sensorData (step pf ev st) = data)
    \<or> (\<exists>u. ev = PressDisconnect (Returns u) \<and> sensorData (step pf ev st) = JObj []))
   \<and> (ch_value c = Some v \<and> v \<noteq> [] \<and> get_field data ''temperature'' = Returns t
        \<and> get_field data ''humidity'' = Returns h \<and> (truthy t \<or> truthy h) \<longrightarrow>
        sensorData (monitor_listener None (Some c) (Returns data) st) = data)
   \<and> (selectedDevice st = Some d \<longrightarrow>
        sensorData (disconnectDevice (Returns u) st) = JObj [])"
proof (intro conjI impI)
  show "sensorData (step pf ev st) = sensorData st
    \<or> (\<exists>ch data. ev = Notification None ch (Returns data)
          \<and> sensorData (step pf ev st) = data)
    \<or> (\<exists>u. ev = PressDisconnect (Returns u) \<and> sensorData (step pf ev st) = JObj [])"
    by (rule step_sensorData)
next
  assume "ch_value c = Some v \<and> v \<noteq> [] \<and> get_field data ''temperature'' = Returns t
        \<and> get_field data ''humidity'' = Returns h \<and> (truthy t \<or> truthy h)"
  then show "sensorData (monitor_listener None (Some c) (Returns data) st) = data"
    by (auto simp: monitor_listener_def decode_body_def)
next
  assume "selectedDevice st = Some d"
  then show "sensorData (disconnectDevice (Returns u) st) = JObj []"
    by (simp add: disconnectDevice_def emit_def Let_def)
qed

theorem sensorData_replaced_wholesale_witness:
  \<open>ch_value \<lparr>ch_uuid = ''2A6E'', isNotifiable = True, ch_value = Some ''{"humidity":40}'',
             monitor_result = Returns ()\<rparr> = Some ''{"humidity":40}''
   \<and> ''{"humidity":40}'' \<noteq> []
   \<and> get_field (JObj [(''humidity'', JNum (Finite 40 0))]) ''temperature'' = Returns None
   \<and> get_field (JObj [(''humidity'', JNum (Finite 40 0))]) ''humidity''
       = Returns (Some (JNum (Finite 40 0)))
   \<and> truthy (Some (JNum (Finite 40 0)))
   \<and> sensorData (monitor_listener None
        (Some \<lparr>ch_uuid = ''2A6E'', isNotifiable = True, ch_value = Some ''{"humidity":40}'',
               monitor_result = Returns ()\<rparr>)
        (Returns (JObj [(''humidity'', JNum (Finite 40 0))]))
        (initial\<lparr>sensorData := JObj [(''temperature'', JNum (Finite 47 (-1)))],
                 selectedDevice := Some \<lparr>dev_id = ''A1'', dev_name = Some ''ESP32''\<rparr>\<rparr>))
     = JObj [(''humidity'', JNum (Finite 40 0))]
   \<and> selectedDevice (initial\<lparr>sensorData := JObj [(''temperature'', JNum (Finite 47 (-1)))],
                 selectedDevice := Some \<lparr>dev_id = ''A1'', dev_name = Some ''ESP32''\<rparr>\<rparr>)
     = Some \<lparr>dev_id = ''A1'', dev_name = Some ''ESP32''\<rparr>
   \<and> sensorData (disconnectDevice (Returns ())
        (initial\<lparr>sensorData := JObj [(''temperature'', JNum (Finite 47 (-1)))],
                 selectedDevice := Some \<lparr>dev_id = ''A1'', dev_name = Some ''ESP32''\<rparr>\<rparr>))
     = JObj []\<close>
  using sensorData_replaced_wholesale
    [where pf = \<open>\<lparr>os = IOS, version = 17\<rparr>\<close> and ev = \<open>StateChange PoweredOn\<close>
       and st = \<open>initial\<lparr>sensorData := JObj [(''temperature'', JNum (Finite 47 (-1)))],
                 selectedDevice := Some \<lparr>dev_id = ''A1'', dev_name = Some ''ESP32''\<rparr>\<rparr>\<close>
       and c = \<open>\<lparr>ch_uuid = ''2A6E'', isNotifiable = True,
                ch_value = Some ''{"humidity":40}'', monitor_result = Returns ()\<rparr>\<close>
       and v = \<open>''{"humidity":40}''\<close>
       and data = \<open>JObj [(''humidity'', JNum (Finite 40 0))]\<close>
       and t = None and h = \<open>Some (JNum (Finite 40 0))\<close>
       and d = \<open>\<lparr>dev_id = ''A1'', dev_name = Some ''ESP32''\<rparr>\<close> and u = \<open>()\<close>]
  by (simp add: initial_def)

text \<open>
  C5. No failing operation is retried, and each handler ends. A scan error and a connection
  error put a message into the status line; a notification error, a failed disconnect and
  an unparseable payload are only written to the console and leave the status line as it
  was. The failing call is made once: a failed connection attempt has called
  \<^verbatim>\<open>connect()\<close> once, a failed disconnect \<^verbatim>\<open>cancelConnection()\<close> once, and the scan-error
  listener starts no scan.
\<close>

theorem failures_end_the_action:
  "scan_listener (Some m) dev st
     = st\<lparr>effects := effects st @ [ConsoleError ''Scan error:'' m],
          statusMsg := ''Scan error: '' @ m, scanning := False\<rparr>
   \<and> (connect_body env d st = (Throws m, st') \<longrightarrow>
        statusMsg (connectToDevice env d st) = ''Connection failed: '' @ m
        \<and> \<not> connected (connectToDevice env d st)
        \<and> count_list (effects (connectToDevice env d st)) (DeviceConnect (dev_id d))
            = count_list (effects st) (DeviceConnect (dev_id d)) + 1)
   \<and> monitor_listener (Some m) ch parsed st
       = st\<lparr>effects := effects st @ [ConsoleError ''Notification error:'' m]\<rparr>
   \<and> (selectedDevice st = Some sd \<longrightarrow>
        disconnectDevice (Throws m) st
        = st\<lparr>effects := effects st @ [CancelConnection (dev_id sd),
                                       ConsoleError ''Disconnect failed:'' m]\<rparr>)
   \<and> (ch_value c = Some v \<and> v \<noteq> [] \<longrightarrow>
        monitor_listener None (Some c) (Throws m) st
        = st\<lparr>effects := effects st @ [ConsoleLog ''Raw data received:'' v]\<rparr>)"
proof (intro conjI impI)
  show "scan_listener (Some m) dev st
     = st\<lparr>effects := effects st @ [ConsoleError ''Scan error:'' m],
          statusMsg := ''Scan error: '' @ m, scanning := False\<rparr>"
    by (simp add: scan_listener_def emit_def)
next
  assume b: "connect_body env d st = (Throws m, st')"
  then show "statusMsg (connectToDevice env d st) = ''Connection failed: '' @ m"
    by (simp add: connectToDevice_def emit_def)
  from b show "\<not> connected (connectToDevice env d st)"
    by (simp add: connectToDevice_def emit_def)
  show "count_list (effects (connectToDevice env d st)) (DeviceConnect (dev_id d))
            = count_list (effects st) (DeviceConnect (dev_id d)) + 1"
    using connectToDevice_count [of "DeviceConnect (dev_id d)" env d st] by simp
next
  show "monitor_listener (Some m) ch parsed st
       = st\<lparr>effects := effects st @ [ConsoleError ''Notification error:'' m]\<rparr>"
    by (simp add: monitor_listener_def emit_def)
next
  assume "selectedDevice st = Some sd"
  then show "disconnectDevice (Throws m) st
        = st\<lparr>effects := effects st @ [CancelConnection (dev_id sd),
                                       ConsoleError ''Disconnect failed:'' m]\<rparr>"
    by (simp add: disconnectDevice_def emit_def)
next
  assume "ch_value c = Some v \<and> v \<noteq> []"
  then show "monitor_listener None (Some c) (Throws m) st
        = st\<lparr>effects := effects st @ [ConsoleLog ''Raw data received:'' v]\<rparr>"
    by (simp add: monitor_listener_def decode_body_def emit_def)
qed

theorem failures_end_the_action_witness:
  "connect_body \<lparr>connect_result = Throws ''Device not found'',
        discover_result = Throws ''unused'', services_result = Returns []\<rparr>
      \<lparr>dev_id = ''A1'', dev_name = Some ''ESP32''\<rparr>
      (initial\<lparr>selectedDevice := Some \<lparr>dev_id = ''B2'', dev_name = Some ''Old''\<rparr>\<rparr>)
    = (Throws ''Device not found'',
       initial\<lparr>selectedDevice := Some \<lparr>dev_id = ''B2'', dev_name = Some ''Old''\<rparr>,
               effects := [DeviceConnect ''A1''], statusMsg := ''Connecting to ESP32...''\<rparr>)
   \<and> statusMsg (connectToDevice \<lparr>connect_result = Throws ''Device not found'',
        discover_result = Throws ''unused'', services_result = Returns []\<rparr>
      \<lparr>dev_id = ''A1'', dev_name = Some ''ESP32''\<rparr>
      (initial\<lparr>selectedDevice := Some \<lparr>dev_id = ''B2'', dev_name = Some ''Old''\<rparr>\<rparr>))
     = ''Connection failed: Device not found''
   \<and> selectedDevice (initial\<lparr>selectedDevice := Some \<lparr>dev_id = ''B2'', dev_name = Some ''Old''\<rparr>\<rparr>)
     = Some \<lparr>dev_id = ''B2'', dev_name = Some ''Old''\<rparr>
   \<and> statusMsg (disconnectDevice (Throws ''Device not found'')
        (initial\<lparr>selectedDevice := Some \<lparr>dev_id = ''B2'', dev_name = Some ''Old''\<rparr>\<rparr>))
     = ''Bluetooth not ready''
   \<and> ch_value \<lparr>ch_uuid = ''2A6E'', isNotifiable = True, ch_value = Some ''23.5'',
                monitor_result = Returns ()\<rparr> = Some ''23.5'' \<and> ''23.5'' \<noteq> []
   \<and> effects (monitor_listener None
        (Some \<lparr>ch_uuid = ''2A6E'', isNotifiable = True, ch_value = Some ''23.5'',
               monitor_result = Returns ()\<rparr>) (Throws ''Device not found'')
        (initial\<lparr>selectedDevice := Some \<lparr>dev_id = ''B2'', dev_name = Some ''Old''\<rparr>\<rparr>))
     = [ConsoleLog ''Raw data received:'' ''23.5'']"
  using failures_end_the_action [of "''Device not found''" None
      "initial\<lparr>selectedDevice := Some \<lparr>dev_id = ''B2'', dev_name = Some ''Old''\<rparr>\<rparr>"
      "\<lparr>connect_result = Throws ''Device not found'',
        discover_result = Throws ''unused'', services_result = Returns []\<rparr>"
      "\<lparr>dev_id = ''A1'', dev_name = Some ''ESP32''\<rparr>"
      "initial\<lparr>selectedDevice := Some \<lparr>dev_id = ''B2'', dev_name = Some ''Old''\<rparr>,
               effects := [DeviceConnect ''A1''], statusMsg := ''Connecting to ESP32...''\<rparr>"
      None "Throws ''Device not found''"
      "\<lparr>dev_id = ''B2'', dev_name = Some ''Old''\<rparr>"
      "\<lparr>ch_uuid = ''2A6E'', isNotifiable = True, ch_value = Some ''23.5'',
                monitor_result = Returns ()\<rparr>" "''23.5''"]
  by (simp add: initial_def connect_body_def emit_def Let_def)

text \<open>
  A failed disconnect surfaces nothing: after a scan, a connection and a
  \<^verbatim>\<open>cancelConnection()\<close> that rejects, the status line still reads as after the connection,
  and the only trace of the failure is the console entry.
\<close>

theorem failed_disconnect_not_surfaced:
  "statusMsg (run \<lparr>os = IOS, version = 17\<rparr>
      [(0, StateChange PoweredOn),
       (1000, PressScan \<lparr>check_fine = Returns True, check_coarse = Returns True,
                 check_scan = Returns True, check_connect = Returns True,
                 request_result = Returns []\<rparr> (Returns ())),
       (2000, ScanResult None (Some \<lparr>dev_id = ''A1'', dev_name = Some ''ESP32''\<rparr>)),
       (3000, PressConnect \<lparr>dev_id = ''A1'', dev_name = Some ''ESP32''\<rparr>
                 \<lparr>connect_result = Returns \<lparr>dev_id = ''A1'', dev_name = Some ''ESP32''\<rparr>,
                  discover_result = Returns \<lparr>dev_id = ''A1'', dev_name = Some ''ESP32''\<rparr>,
                  services_result = Returns []\<rparr>),
       (4000, PressDisconnect (Throws ''Operation was cancelled''))]
      initial) = ''Connected and monitoring ESP32''
   \<and> effects (run \<lparr>os = IOS, version = 17\<rparr>
      [(0, StateChange PoweredOn),
       (1000, PressScan \<lparr>check_fine = Returns True, check_coarse = Returns True,
                 check_scan = Returns True, check_connect = Returns True,
                 request_result = Returns []\<rparr> (Returns ())),
       (2000, ScanResult None (Some \<lparr>dev_id = ''A1'', dev_name = Some ''ESP32''\<rparr>)),
       (3000, PressConnect \<lparr>dev_id = ''A1'', dev_name = Some ''ESP32''\<rparr>
                 \<lparr>connect_result = Returns \<lparr>dev_id = ''A1'', dev_name = Some ''ESP32''\<rparr>,
                  discover_result = Returns \<lparr>dev_id = ''A1'', dev_name = Some ''ESP32''\<rparr>,
                  services_result = Returns []\<rparr>),
       (4000, PressDisconnect (Throws ''Operation was cancelled''))]
      initial)
     = [StartDeviceScan, SetTimeout 10000, DeviceConnect ''A1'', DiscoverAll ''A1'',
        DeviceServices ''A1'', CancelConnection ''A1'',
        ConsoleError ''Disconnect failed:'' ''Operation was cancelled'']"
  by (simp add: eval_defs disconnectDevice_def)

text \<open>
  C6. On Android, when \<^verbatim>\<open>requestMultiple\<close> answers for exactly the permissions requested
  (fine and coarse location, and from version 31 on also Bluetooth scan and connect),
  \<open>requestPermissions\<close> returns true if and only if every one of them is granted; any entry
  of the answer that is not \<^verbatim>\<open>granted\<close> makes the result false, and so does a request that
  throws. On another platform nothing is requested and the result is true.
\<close>

theorem requestPermissions_all_or_nothing:
  "(os pf = Android \<and> request_result env = Returns granted
      \<and> distinct (map fst granted)
      \<and> set (map fst granted) = set (requested_permissions pf) \<longrightarrow>
      fst (requestPermissions pf env st)
      = (\<forall>p \<in> set (requested_permissions pf). map_of granted p = Some GRANTED))
   \<and> (os pf = Android \<and> request_result env = Returns granted
      \<and> (p, s) \<in> set granted \<and> s \<noteq> GRANTED \<longrightarrow> \<not> fst (requestPermissions pf env st))
   \<and> (os pf = Android \<and> request_result env = Throws err \<longrightarrow>
      \<not> fst (requestPermissions pf env st))
   \<and> (os pf \<noteq> Android \<longrightarrow> requestPermissions pf env st = (True, st))
   \<and> set (requested_permissions pf) =
        {ACCESS_FINE_LOCATION, ACCESS_COARSE_LOCATION}
        \<union> (if 31 \<le> version pf then {BLUETOOTH_SCAN, BLUETOOTH_CONNECT} else {})"
proof (intro conjI impI)
  assume a: "os pf = Android \<and> request_result env = Returns granted
      \<and> distinct (map fst granted)
      \<and> set (map fst granted) = set (requested_permissions pf)"
  then have "distinct (map fst granted)" by simp
  from all_values_granted [OF this]
  have "list_all (\<lambda>s. s = GRANTED) (map snd granted)
      = (\<forall>p \<in> set (map fst granted). map_of granted p = Some GRANTED)" .
  also from a have "set (map fst granted) = set (requested_permissions pf)" by simp
  finally have "list_all (\<lambda>s. s = GRANTED) (map snd granted)
      = (\<forall>p \<in> set (requested_permissions pf). map_of granted p = Some GRANTED)" .
  moreover from a have "fst (requestPermissions pf env st)
      = list_all (\<lambda>s. s = GRANTED) (map snd granted)"
    by (simp add: requestPermissions_def Let_def)
  ultimately show "fst (requestPermissions pf env st)
      = (\<forall>p \<in> set (requested_permissions pf). map_of granted p = Some GRANTED)"
    by (simp only:)
next
  assume a: "os pf = Android \<and> request_result env = Returns granted
      \<and> (p, s) \<in> set granted \<and> s \<noteq> GRANTED"
  then have "\<not> list_all (\<lambda>s. s = GRANTED) (map snd granted)"
    by (force simp: list_all_iff)
  with a show "\<not> fst (requestPermissions pf env st)"
    by (simp add: requestPermissions_def Let_def)
next
  assume "os pf = Android \<and> request_result env = Throws err"
  then show "\<not> fst (requestPermissions pf env st)"
    by (simp add: requestPermissions_def Let_def)
next
  assume "os pf \<noteq> Android"
  then show "requestPermissions pf env st = (True, st)"
    by (simp add: requestPermissions_def)
next
  show "set (requested_permissions pf) =
        {ACCESS_FINE_LOCATION, ACCESS_COARSE_LOCATION}
        \<union> (if 31 \<le> version pf then {BLUETOOTH_SCAN, BLUETOOTH_CONNECT} else {})"
    by (auto simp: requested_permissions_def)
qed

theorem requestPermissions_all_or_nothing_witness:
  "os \<lparr>os = Android, version = 33\<rparr> = Android
   \<and> distinct (map fst [(ACCESS_FINE_LOCATION, GRANTED), (ACCESS_COARSE_LOCATION, GRANTED),
        (BLUETOOTH_SCAN, DENIED), (BLUETOOTH_CONNECT, GRANTED)])
   \<and> set (map fst [(ACCESS_FINE_LOCATION, GRANTED), (ACCESS_COARSE_LOCATION, GRANTED),
        (BLUETOOTH_SCAN, DENIED), (BLUETOOTH_CONNECT, GRANTED)])
      = set (requested_permissions \<lparr>os = Android, version = 33\<rparr>)
   \<and> (BLUETOOTH_SCAN, DENIED) \<in> set [(ACCESS_FINE_LOCATION, GRANTED),
        (ACCESS_COARSE_LOCATION, GRANTED), (BLUETOOTH_SCAN, DENIED),
        (BLUETOOTH_CONNECT, GRANTED)]
   \<and> DENIED \<noteq> GRANTED
   \<and> \<not> fst (requestPermissions \<lparr>os = Android, version = 33\<rparr>
        \<lparr>check_fine = Returns False, check_coarse = Returns False, check_scan = Returns False,
         check_connect = Returns False,
         request_result = Returns [(ACCESS_FINE_LOCATION, GRANTED),
           (ACCESS_COARSE_LOCATION, GRANTED), (BLUETOOTH_SCAN, DENIED),
           (BLUETOOTH_CONNECT, GRANTED)]\<rparr> initial)
   \<and> fst (requestPermissions \<lparr>os = Android, version = 30\<rparr>
        \<lparr>check_fine = Returns False, check_coarse = Returns False, check_scan = Returns False,
         check_connect = Returns False,
         request_result = Returns [(ACCESS_FINE_LOCATION, GRANTED),
           (ACCESS_COARSE_LOCATION, GRANTED)]\<rparr> initial)
   \<and> \<not> fst (requestPermissions \<lparr>os = Android, version = 30\<rparr>
        \<lparr>check_fine = Returns False, check_coarse = Returns False, check_scan = Returns False,
         check_connect = Returns False,
         request_result = Throws ''No activity''\<rparr> initial)
   \<and> os \<lparr>os = IOS, version = 17\<rparr> \<noteq> Android
   \<and> fst (requestPermissions \<lparr>os = IOS, version = 17\<rparr>
        \<lparr>check_fine = Returns False, check_coarse = Returns False, check_scan = Returns False,
         check_connect = Returns False,
         request_result = Throws ''No activity''\<rparr> initial)"
  using requestPermissions_all_or_nothing [of "\<lparr>os = Android, version = 33\<rparr>"
      "\<lparr>check_fine = Returns False, check_coarse = Returns False, check_scan = Returns False,
         check_connect = Returns False,
         request_result = Returns [(ACCESS_FINE_LOCATION, GRANTED),
           (ACCESS_COARSE_LOCATION, GRANTED), (BLUETOOTH_SCAN, DENIED),
           (BLUETOOTH_CONNECT, GRANTED)]\<rparr>"
      "[(ACCESS_FINE_LOCATION, GRANTED), (ACCESS_COARSE_LOCATION, GRANTED),
        (BLUETOOTH_SCAN, DENIED), (BLUETOOTH_CONNECT, GRANTED)]" initial
      BLUETOOTH_SCAN DENIED "''x''"]
    requestPermissions_all_or_nothing [of "\<lparr>os = Android, version = 30\<rparr>"
      "\<lparr>check_fine = Returns False, check_coarse = Returns False, check_scan = Returns False,
         check_connect = Returns False,
         request_result = Returns [(ACCESS_FINE_LOCATION, GRANTED),
           (ACCESS_COARSE_LOCATION, GRANTED)]\<rparr>"
      "[(ACCESS_FINE_LOCATION, GRANTED), (ACCESS_COARSE_LOCATION, GRANTED)]" initial
      BLUETOOTH_SCAN DENIED "''x''"]
    requestPermissions_all_or_nothing [of "\<lparr>os = Android, version = 30\<rparr>"
      "\<lparr>check_fine = Returns False, check_coarse = Returns False, check_scan = Returns False,
         check_connect = Returns False,
         request_result = Throws ''No activity''\<rparr>"
      "[]" initial BLUETOOTH_SCAN DENIED "''No activity''"]
    requestPermissions_all_or_nothing [of "\<lparr>os = IOS, version = 17\<rparr>"
      "\<lparr>check_fine = Returns False, check_coarse = Returns False, check_scan = Returns False,
         check_connect = Returns False,
         request_result = Throws ''No activity''\<rparr>"
      "[]" initial BLUETOOTH_SCAN DENIED "''No activity''"]
  by (simp add: requested_permissions_def)

text \<open>
  C7. \<open>startBLEScan\<close> calls \<^verbatim>\<open>startDeviceScan\<close> exactly when the adapter state it sees is
  \<open>PoweredOn\<close> and either the permission check or, failing that, the permission request
  returns true. When the adapter is not \<open>PoweredOn\<close>, or the permissions are checked,
  requested and still denied, it calls no \<^verbatim>\<open>startDeviceScan\<close> and leaves the device list,
  the running scan and the timer queue as they were.
\<close>

theorem startBLEScan_gate:
  "(bluetoothState st = PoweredOn
      \<and> (fst (checkPermissions pf env st)
          \<or> fst (requestPermissions pf env (snd (checkPermissions pf env st))))
      \<longrightarrow> count_list (effects (startBLEScan pf env r st)) StartDeviceScan
          = count_list (effects st) StartDeviceScan + 1)
   \<and> (bluetoothState st \<noteq> PoweredOn
      \<or> (\<not> fst (checkPermissions pf env st)
          \<and> \<not> fst (requestPermissions pf env (snd (checkPermissions pf env st))))
      \<longrightarrow> count_list (effects (startBLEScan pf env r st)) StartDeviceScan
          = count_list (effects st) StartDeviceScan
        \<and> devices (startBLEScan pf env r st) = devices st
        \<and> scanSince (startBLEScan pf env r st) = scanSince st
        \<and> timers (startBLEScan pf env r st) = timers st)"
  using startBLEScan_cases [of st pf env r] by auto

theorem startBLEScan_gate_witness:
  "bluetoothState (initial\<lparr>bluetoothState := PoweredOn\<rparr>) = PoweredOn
   \<and> fst (checkPermissions \<lparr>os = Android, version = 33\<rparr>
        \<lparr>check_fine = Returns True, check_coarse = Returns True, check_scan = Returns True,
         check_connect = Returns True, request_result = Returns []\<rparr>
        (initial\<lparr>bluetoothState := PoweredOn\<rparr>))
   \<and> count_list (effects (startBLEScan \<lparr>os = Android, version = 33\<rparr>
        \<lparr>check_fine = Returns True, check_coarse = Returns True, check_scan = Returns True,
         check_connect = Returns True, request_result = Returns []\<rparr> (Returns ())
        (initial\<lparr>bluetoothState := PoweredOn\<rparr>))) StartDeviceScan = 1
   \<and> bluetoothState initial \<noteq> PoweredOn
   \<and> count_list (effects (startBLEScan \<lparr>os = Android, version = 33\<rparr>
        \<lparr>check_fine = Returns True, check_coarse = Returns True, check_scan = Returns True,
         check_connect = Returns True, request_result = Returns []\<rparr> (Returns ())
        initial)) StartDeviceScan = 0"
  using startBLEScan_gate [of "initial\<lparr>bluetoothState := PoweredOn\<rparr>"
      "\<lparr>os = Android, version = 33\<rparr>"
      "\<lparr>check_fine = Returns True, check_coarse = Returns True, check_scan = Returns True,
         check_connect = Returns True, request_result = Returns []\<rparr>" "Returns ()"]
    startBLEScan_gate [of initial "\<lparr>os = Android, version = 33\<rparr>"
      "\<lparr>check_fine = Returns True, check_coarse = Returns True, check_scan = Returns True,
         check_connect = Returns True, request_result = Returns []\<rparr>" "Returns ()"]
  by (simp add: initial_def checkPermissions_def check_body_def emit_def)

text \<open>
  C8. A \<open>startBLEScan\<close> whose \<^verbatim>\<open>startDeviceScan\<close> call returns puts exactly one callback
  into the timer queue, due 10000 ms later; the callback calls \<^verbatim>\<open>stopDeviceScan\<close> and clears
  the scanning flag. No event removes a pending callback and no handler calls
  \<^verbatim>\<open>stopDeviceScan\<close>. So a scan started while no callback is pending is not stopped by
  anything that happens before its 10 seconds are over, and is stopped, with the scanning
  flag cleared, when they are. A scan started while the callback of an earlier scan is
  still pending is not covered: that callback stops it early.
\<close>

theorem scan_window:
  "(count_list (effects (startBLEScan pf env (Returns u) st)) StartDeviceScan
      \<noteq> count_list (effects st) StartDeviceScan \<longrightarrow>
      timers (startBLEScan pf env (Returns u) st)
      = timers st @ [\<lparr>due = clock st + 10000, found = length (devices st)\<rparr>])
   \<and> effects (timeout_callback tm st) = effects st @ [StopDeviceScan]
   \<and> \<not> scanning (timeout_callback tm st)
   \<and> (timers (step pf ev st) = timers st
       \<or> timers (step pf ev st)
          = timers st @ [\<lparr>due = clock st + 10000, found = length (devices st)\<rparr>])
   \<and> count_list (effects (step pf ev st)) StopDeviceScan
       = count_list (effects st) StopDeviceScan
   \<and> (timers st = [] \<and> timers (startBLEScan pf env r st) \<noteq> []
        \<and> (\<forall>(t, e) \<in> set evs. t < clock st + 10000) \<longrightarrow>
        count_list (effects (run pf evs (startBLEScan pf env r st))) StopDeviceScan
          = count_list (effects (startBLEScan pf env r st)) StopDeviceScan
        \<and> count_list (effects (run pf evs (startBLEScan pf env r st))) StopDeviceScan
          < count_list (effects (advance (clock st + 10000)
                (run pf evs (startBLEScan pf env r st)))) StopDeviceScan
        \<and> \<not> scanning (advance (clock st + 10000) (run pf evs (startBLEScan pf env r st))))"
proof (intro conjI impI)
  assume "count_list (effects (startBLEScan pf env (Returns u) st)) StartDeviceScan
      \<noteq> count_list (effects st) StartDeviceScan"
  with startBLEScan_cases [of st pf env "Returns u"]
  show "timers (startBLEScan pf env (Returns u) st)
      = timers st @ [\<lparr>due = clock st + 10000, found = length (devices st)\<rparr>]"
    by auto
next
  show "effects (timeout_callback tm st) = effects st @ [StopDeviceScan]"
    by (simp add: timeout_callback_def emit_def)
  show "\<not> scanning (timeout_callback tm st)"
    by (simp add: timeout_callback_def emit_def)
  show "timers (step pf ev st) = timers st
       \<or> timers (step pf ev st)
          = timers st @ [\<lparr>due = clock st + 10000, found = length (devices st)\<rparr>]"
    using step_timers [of pf ev st] by simp
  show "count_list (effects (step pf ev st)) StopDeviceScan
       = count_list (effects st) StopDeviceScan"
    using step_timers [of pf ev st] by simp
next
  let ?D = "clock st + 10000"
  let ?s = "startBLEScan pf env r st"
  assume a: "timers st = [] \<and> timers ?s \<noteq> [] \<and> (\<forall>(t, e) \<in> set evs. t < ?D)"
  with startBLEScan_timers [of pf env r st]
  have tm: "timers ?s = [\<lparr>due = ?D, found = length (devices st)\<rparr>]" by auto
  then have p1: "\<forall>tm \<in> set (timers ?s). ?D \<le> due tm" by simp
  have p2: "?D \<le> clock ?s + 10000" by (simp add: startBLEScan_keeps)
  from a have p3: "\<forall>(t, e) \<in> set evs. t < ?D" by simp
  from run_before_deadline [OF p1 p2 p3, of pf] tm
  have cnt: "count_list (effects (run pf evs ?s)) StopDeviceScan
          = count_list (effects ?s) StopDeviceScan"
    and mem: "\<lparr>due = ?D, found = length (devices st)\<rparr> \<in> set (timers (run pf evs ?s))"
    by auto
  from mem have pending: "\<exists>tm \<in> set (timers (run pf evs ?s)). due tm \<le> ?D"
    by (rule rev_bexI) simp
  from cnt show "count_list (effects (run pf evs ?s)) StopDeviceScan
          = count_list (effects ?s) StopDeviceScan" .
  from advance_fires [OF pending]
  show "count_list (effects (run pf evs ?s)) StopDeviceScan
          < count_list (effects (advance ?D (run pf evs ?s))) StopDeviceScan"
    and "\<not> scanning (advance ?D (run pf evs ?s))"
    by simp_all
qed

theorem scan_window_witness:
  "timers (initial\<lparr>bluetoothState := PoweredOn\<rparr>) = []
   \<and> timers (startBLEScan \<lparr>os = IOS, version = 17\<rparr>
        \<lparr>check_fine = Returns True, check_coarse = Returns True, check_scan = Returns True,
         check_connect = Returns True, request_result = Returns []\<rparr> (Returns ())
        (initial\<lparr>bluetoothState := PoweredOn\<rparr>)) = [\<lparr>due = 10000, found = 0\<rparr>]
   \<and> (5000 :: nat) < clock (initial\<lparr>bluetoothState := PoweredOn\<rparr>) + 10000
   \<and> \<not> scanning (advance (clock (initial\<lparr>bluetoothState := PoweredOn\<rparr>) + 10000)
        (run \<lparr>os = IOS, version = 17\<rparr>
          [(5000, ScanResult None (Some \<lparr>dev_id = ''A1'', dev_name = Some ''ESP32''\<rparr>))]
          (startBLEScan \<lparr>os = IOS, version = 17\<rparr>
            \<lparr>check_fine = Returns True, check_coarse = Returns True,
             check_scan = Returns True, check_connect = Returns True,
             request_result = Returns []\<rparr> (Returns ())
            (initial\<lparr>bluetoothState := PoweredOn\<rparr>))))"
  using scan_window [of "\<lparr>os = IOS, version = 17\<rparr>"
      "\<lparr>check_fine = Returns True, check_coarse = Returns True, check_scan = Returns True,
         check_connect = Returns True, request_result = Returns []\<rparr>" "()"
      "initial\<lparr>bluetoothState := PoweredOn\<rparr>" "\<lparr>due = 10000, found = 0\<rparr>"
      "StateChange PoweredOn" "Returns ()"
      "[(5000, ScanResult None (Some \<lparr>dev_id = ''A1'', dev_name = Some ''ESP32''\<rparr>))]"]
  by (simp add: eval_defs)

text \<open>
  A scan stopped after 7 seconds: the first scan, started at 1000 ms, reports an error at
  2000 ms, which clears the scanning flag and enables the scan button; the second scan
  starts at 4000 ms; at 11000 ms the callback of the first scan fires and stops it.
\<close>

theorem second_scan_cut_short:
  "scanSince (run \<lparr>os = IOS, version = 17\<rparr>
      [(0, StateChange PoweredOn),
       (1000, PressScan \<lparr>check_fine = Returns True, check_coarse = Returns True,
                 check_scan = Returns True, check_connect = Returns True,
                 request_result = Returns []\<rparr> (Returns ())),
       (2000, ScanResult (Some ''Cannot start scanning operation'') None),
       (4000, PressScan \<lparr>check_fine = Returns True, check_coarse = Returns True,
                 check_scan = Returns True, check_connect = Returns True,
                 request_result = Returns []\<rparr> (Returns ()))]
      initial) = Some 4000
   \<and> scanSince (advance 11000 (run \<lparr>os = IOS, version = 17\<rparr>
      [(0, StateChange PoweredOn),
       (1000, PressScan \<lparr>check_fine = Returns True, check_coarse = Returns True,
                 check_scan = Returns True, check_connect = Returns True,
                 request_result = Returns []\<rparr> (Returns ())),
       (2000, ScanResult (Some ''Cannot start scanning operation'') None),
       (4000, PressScan \<lparr>check_fine = Returns True, check_coarse = Returns True,
                 check_scan = Returns True, check_connect = Returns True,
                 request_result = Returns []\<rparr> (Returns ()))]
      initial)) = None
   \<and> effects (advance 11000 (run \<lparr>os = IOS, version = 17\<rparr>
      [(0, StateChange PoweredOn),
       (1000, PressScan \<lparr>check_fine = Returns True, check_coarse = Returns True,
                 check_scan = Returns True, check_connect = Returns True,
                 request_result = Returns []\<rparr> (Returns ())),
       (2000, ScanResult (Some ''Cannot start scanning operation'') None),
       (4000, PressScan \<lparr>check_fine = Returns True, check_coarse = Returns True,
                 check_scan = Returns True, check_connect = Returns True,
                 request_result = Returns []\<rparr> (Returns ()))]
      initial))
     = [StartDeviceScan, SetTimeout 10000,
        ConsoleError ''Scan error:'' ''Cannot start scanning operation'',
        StartDeviceScan, SetTimeout 10000, StopDeviceScan]"
  by (simp add: eval_defs)

text \<open>
  C9. When the adapter state changes to \<open>PoweredOff\<close>, the connection flag becomes false and
  the selected device is cleared, and the sensor readings stay as they were; a change to
  any other adapter state leaves the connection flag and the selected device alone.
\<close>

theorem onStateChange_frame:
  "connected (onStateChange PoweredOff st) = False
   \<and> selectedDevice (onStateChange PoweredOff st) = None
   \<and> sensorData (onStateChange s st) = sensorData st
   \<and> (s \<noteq> PoweredOff \<longrightarrow>
        connected (onStateChange s st) = connected st
        \<and> selectedDevice (onStateChange s st) = selectedDevice st)"
  by (simp add: onStateChange_def Let_def)

theorem onStateChange_frame_witness:
  "PoweredOn \<noteq> PoweredOff
   \<and> connected (onStateChange PoweredOn
        (initial\<lparr>connected := True, selectedDevice := Some \<lparr>dev_id = ''A1'', dev_name = Some ''ESP32''\<rparr>\<rparr>))
   \<and> selectedDevice (onStateChange PoweredOn
        (initial\<lparr>connected := True, selectedDevice := Some \<lparr>dev_id = ''A1'', dev_name = Some ''ESP32''\<rparr>\<rparr>))
      = Some \<lparr>dev_id = ''A1'', dev_name = Some ''ESP32''\<rparr>
   \<and> \<not> connected (onStateChange PoweredOff
        (initial\<lparr>connected := True, selectedDevice := Some \<lparr>dev_id = ''A1'', dev_name = Some ''ESP32''\<rparr>\<rparr>))"
  using onStateChange_frame [of "initial\<lparr>connected := True, selectedDevice := Some \<lparr>dev_id = ''A1'', dev_name = Some ''ESP32''\<rparr>\<rparr>" PoweredOn]
    onStateChange_frame [of "initial\<lparr>connected := True, selectedDevice := Some \<lparr>dev_id = ''A1'', dev_name = Some ''ESP32''\<rparr>\<rparr>" PoweredOff]
  by (simp add: initial_def)

text \<open>
  C10. \<open>readSensorData\<close> never changes the sensor readings, the connection flag or the
  selected device. Without a selected device it changes nothing at all; with one, the only
  state variable it writes is the status message, and when \<^verbatim>\<open>services()\<close> resolves it ends
  with the success message after a single \<^verbatim>\<open>services()\<close> call and no read of a
  characteristic.
\<close>

theorem readSensorData_frame:
  "sensorData (readSensorData r st) = sensorData st
   \<and> connected (readSensorData r st) = connected st
   \<and> selectedDevice (readSensorData r st) = selectedDevice st
   \<and> (selectedDevice st = None \<longrightarrow> readSensorData r st = st)
   \<and> readSensorData r st =
       st\<lparr>statusMsg := statusMsg (readSensorData r st),
          effects := effects (readSensorData r st)\<rparr>
   \<and> (\<forall>d. selectedDevice st = Some d \<longrightarrow>
         readSensorData (Returns x) st =
           st\<lparr>statusMsg := ''Data read successfully'',
              effects := effects st @ [DeviceServices (dev_id d)]\<rparr>)"
  by (cases r) (auto simp: readSensorData_def emit_def Let_def split: option.splits)

theorem readSensorData_frame_witness:
  "selectedDevice (initial\<lparr>connected := True,
       selectedDevice := Some \<lparr>dev_id = ''A1'', dev_name = Some ''ESP32''\<rparr>\<rparr>)
     = Some \<lparr>dev_id = ''A1'', dev_name = Some ''ESP32''\<rparr>
   \<and> statusMsg (readSensorData (Returns ()) (initial\<lparr>connected := True,
       selectedDevice := Some \<lparr>dev_id = ''A1'', dev_name = Some ''ESP32''\<rparr>\<rparr>))
     = ''Data read successfully''
   \<and> selectedDevice initial = None
   \<and> readSensorData (Returns ()) initial = initial"
  using readSensorData_frame [of "Returns ()" "initial\<lparr>connected := True,
       selectedDevice := Some \<lparr>dev_id = ''A1'', dev_name = Some ''ESP32''\<rparr>\<rparr>" "()"]
    readSensorData_frame [of "Returns ()" initial "()"]
  by (simp add: initial_def)

end
